theory Spec2Isabelle
  imports Complex_Main "HOL-Library.Word" "HOL-Library.AList"
begin

section \<open>JavaScript strings and values\<close>

text \<open>
  A JavaScript string is a sequence of UTF-16 code units. The regular expressions of
  \<open>extractStudentId\<close> test single code units (the en dash U+2013, the em dash U+2014),
  so a string is modelled as the list of its code-unit values. \<open>ustr\<close> turns an ASCII
  literal into such a list.
\<close>

type_synonym jstring = "nat list"

definition ustr :: "string \<Rightarrow> jstring" where
  "ustr s = map of_char s"

text \<open>
  The values that arrive from JSON (cells of the store, request bodies). \<open>JUndefined\<close>
  is what reading a missing property gives. A number is kept by its exact decimal value.
\<close>

datatype jsval =
    JUndefined
  | JNull
  | JBool bool
  | JNum rat
  | JStr jstring
  | JArr "jsval list"
  | JObj "(jstring \<times> jsval) list"

text \<open>ToBoolean: what \<open>if (v)\<close>, \<open>!v\<close> and \<open>v || w\<close> test.\<close>

fun truthy :: "jsval \<Rightarrow> bool" where
  "truthy JUndefined = False"
| "truthy JNull = False"
| "truthy (JBool b) = b"
| "truthy (JNum n) = (n \<noteq> 0)"
| "truthy (JStr s) = (s \<noteq> [])"
| "truthy (JArr xs) = True"
| "truthy (JObj kvs) = True"

text \<open>\<open>a || b\<close> on values.\<close>

definition orElse :: "jsval \<Rightarrow> jsval \<Rightarrow> jsval" where
  "orElse a b = (if truthy a then a else b)"

text \<open>
  Strict equality \<open>===\<close> (and SameValueZero, which \<open>Array.prototype.includes\<close> uses;
  the two differ on NaN only, which JSON cannot carry). Arrays and objects are compared
  by identity: two values parsed from JSON are never the same object.
\<close>

definition strictEq :: "jsval \<Rightarrow> jsval \<Rightarrow> bool" where
  "strictEq a b = (case a of JArr _ \<Rightarrow> False | JObj _ \<Rightarrow> False | _ \<Rightarrow> a = b)"

text \<open>
  The functions of the JavaScript runtime and of Node's \<open>crypto\<close> module that the
  program calls and that are not code of this repository. They are parameters of the
  model:
  \<^item> \<open>hostToString v\<close>: \<open>String(v)\<close> for a value that is not a string;
  \<^item> \<open>hostDate v\<close>: the time value (milliseconds since the epoch) of \<open>new Date(v)\<close>,
    \<open>None\<close> for an Invalid Date (time value NaN);
  \<^item> \<open>hostLowerCase\<close>: \<open>String.prototype.toLowerCase\<close>;
  \<^item> \<open>hostLocaleCompare\<close>: \<open>String.prototype.localeCompare\<close>;
  \<^item> \<open>hostHmacSha256 key msg\<close>: the bytes of
    \<open>crypto.createHmac("sha256", key).update(msg).digest()\<close>.
\<close>

record host =
  hostToString :: "jsval \<Rightarrow> jstring"
  hostDate :: "jsval \<Rightarrow> int option"
  hostLowerCase :: "jstring \<Rightarrow> jstring"
  hostLocaleCompare :: "jstring \<Rightarrow> jstring \<Rightarrow> int"
  hostHmacSha256 :: "jstring \<Rightarrow> jstring \<Rightarrow> 8 word list"

text \<open>\<open>String(v)\<close>: the identity on a string.\<close>

definition String :: "host \<Rightarrow> jsval \<Rightarrow> jstring" where
  "String h v = (case v of JStr s \<Rightarrow> s | _ \<Rightarrow> hostToString h v)"

subsection \<open>Character classes\<close>

text \<open>
  \<open>isWhiteSpace\<close> is the set that \<open>String.prototype.trim\<close> strips and that \<open>\s\<close>
  matches: the WhiteSpace and LineTerminator code points of ECMAScript.
\<close>

definition isWhiteSpace :: "nat \<Rightarrow> bool" where
  "isWhiteSpace c \<longleftrightarrow>
     c = 0x09 \<or> c = 0x0A \<or> c = 0x0B \<or> c = 0x0C \<or> c = 0x0D \<or> c = 0x20 \<or> c = 0xA0 \<or>
     c = 0x1680 \<or> (0x2000 \<le> c \<and> c \<le> 0x200A) \<or> c = 0x2028 \<or> c = 0x2029 \<or>
     c = 0x202F \<or> c = 0x205F \<or> c = 0x3000 \<or> c = 0xFEFF"

text \<open>\<open>[A-Za-z]\<close>\<close>

definition isLetter :: "nat \<Rightarrow> bool" where
  "isLetter c \<longleftrightarrow> (0x41 \<le> c \<and> c \<le> 0x5A) \<or> (0x61 \<le> c \<and> c \<le> 0x7A)"

text \<open>\<open>\d\<close>\<close>

definition isDigit :: "nat \<Rightarrow> bool" where
  "isDigit c \<longleftrightarrow> 0x30 \<le> c \<and> c \<le> 0x39"

text \<open>\<open>\w\<close>, which decides the word boundary \<open>\b\<close>\<close>

definition isWordChar :: "nat \<Rightarrow> bool" where
  "isWordChar c \<longleftrightarrow> isLetter c \<or> isDigit c \<or> c = 0x5F"

text \<open>\<open>[-\<dots>]\<close>: hyphen-minus, en dash U+2013, em dash U+2014\<close>

definition isDash :: "nat \<Rightarrow> bool" where
  "isDash c \<longleftrightarrow> c = 0x2D \<or> c = 0x2013 \<or> c = 0x2014"

text \<open>\<open>String.prototype.trim\<close>\<close>

definition trim :: "jstring \<Rightarrow> jstring" where
  "trim s = rev (dropWhile isWhiteSpace (rev (dropWhile isWhiteSpace s)))"

text \<open>\<open>s.slice(i, j)\<close> for \<open>0 \<le> i \<le> j\<close>\<close>

definition slice :: "nat \<Rightarrow> nat \<Rightarrow> jstring \<Rightarrow> jstring" where
  "slice i j s = take (j - i) (drop i s)"

section \<open>Helpers of the server\<close>

subsection \<open>derivePassword\<close>

text \<open>
  \<open>digest("base64url")\<close>: base64 with the alphabet \<open>A-Z a-z 0-9 - _\<close> and no padding.
\<close>

definition b64char :: "nat \<Rightarrow> nat" where
  "b64char n =
     (if n < 26 then 0x41 + n
      else if n < 52 then 0x61 + (n - 26)
      else if n < 62 then 0x30 + (n - 52)
      else if n = 62 then 0x2D
      else 0x5F)"

fun base64url :: "nat list \<Rightarrow> jstring" where
  "base64url (a # b # c # rest) =
     [b64char (a div 4), b64char ((a mod 4) * 16 + b div 16),
      b64char ((b mod 16) * 4 + c div 64), b64char (c mod 64)] @ base64url rest"
| "base64url [a, b] =
     [b64char (a div 4), b64char ((a mod 4) * 16 + b div 16), b64char ((b mod 16) * 4)]"
| "base64url [a] = [b64char (a div 4), b64char ((a mod 4) * 16)]"
| "base64url [] = []"

text \<open>
  \<^verbatim>\<open>
  function derivePassword(studentId) {
    const raw = crypto
      .createHmac("sha256", PORTAL_PW_SECRET)
      .update(String(studentId).trim())
      .digest("base64url");
    return `ac-${raw.slice(0, 5)}-${raw.slice(5, 11)}`;
  }
  \<close>
  \<open>PORTAL_PW_SECRET\<close> is the module-level constant read from the environment; it is the
  argument \<open>secret\<close> here.
\<close>

definition derivePassword :: "host \<Rightarrow> jstring \<Rightarrow> jsval \<Rightarrow> jstring" where
  "derivePassword h secret studentId =
     (let raw = base64url (map unat (hostHmacSha256 h secret (trim (String h studentId))))
      in ustr ''ac-'' @ slice 0 5 raw @ ustr ''-'' @ slice 5 11 raw)"

text \<open>
  The password-printing script defines the function a second time, over its own
  module-level \<open>PORTAL_PW_SECRET\<close>:
  \<^verbatim>\<open>
  function derivePassword(studentId) {
    const raw = crypto
      .createHmac("sha256", PORTAL_PW_SECRET)
      .update(String(studentId).trim())
      .digest("base64url");
    return `ac-${raw.slice(0, 5)}-${raw.slice(5, 11)}`;
  }
  \<close>
\<close>

definition derivePassword_script :: "host \<Rightarrow> jstring \<Rightarrow> jsval \<Rightarrow> jstring" where
  "derivePassword_script h secret studentId =
     (let raw = base64url (map unat (hostHmacSha256 h secret (trim (String h studentId))))
      in ustr ''ac-'' @ slice 0 5 raw @ ustr ''-'' @ slice 5 11 raw)"

subsection \<open>extractStudentId\<close>

text \<open>
  Both regular expressions start with the group \<open>^([A-Za-z]\d{2,})\<close>. \<open>\d{2,}\<close> is
  greedy, and giving a digit back never helps what follows: the next code unit would
  then be a digit, which is neither white space nor a dash (first expression) and is a
  word character, so no word boundary (second expression). The group is therefore the
  letter and the whole run of digits after it, at least two. \<open>idGroup\<close> returns the
  group and the rest of the text.
\<close>

definition idGroup :: "jstring \<Rightarrow> (jstring \<times> jstring) option" where
  "idGroup s =
     (case s of
        [] \<Rightarrow> None
      | c # rest \<Rightarrow>
          if isLetter c \<and> 2 \<le> length (takeWhile isDigit rest)
          then Some (c # takeWhile isDigit rest, dropWhile isDigit rest)
          else None)"

text \<open>
  \<open>rawName.match(/^([A-Za-z]\d{2,})\s*[-\<dots>]\s*/)\<close>, returning \<open>m[1]\<close>. \<open>\s*\<close> is
  greedy too, and giving white space back leaves white space where the dash must be.
\<close>

definition matchIdDash :: "jstring \<Rightarrow> jstring option" where
  "matchIdDash s =
     (case idGroup s of
        None \<Rightarrow> None
      | Some (g, rest) \<Rightarrow>
          (case dropWhile isWhiteSpace rest of
             [] \<Rightarrow> None
           | d # _ \<Rightarrow> if isDash d then Some g else None))"

text \<open>
  \<open>rawName.match(/^([A-Za-z]\d{2,})\b/)\<close>, returning \<open>m[1]\<close>: after the last digit
  there is a word boundary when the text ends or goes on with a non-word character.
\<close>

definition matchIdBoundary :: "jstring \<Rightarrow> jstring option" where
  "matchIdBoundary s =
     (case idGroup s of
        None \<Rightarrow> None
      | Some (g, rest) \<Rightarrow>
          (case rest of
             [] \<Rightarrow> Some g
           | d # _ \<Rightarrow> if isWordChar d then None else Some g))"

text \<open>
  \<^verbatim>\<open>
  function extractStudentId(rawName) {
    if (typeof rawName !== "string") return null;
    let m = rawName.match(/^([A-Za-z]\d{2,})\s*[-\<dots>]\s*/);
    if (m) return m[1];
    m = rawName.match(/^([A-Za-z]\d{2,})\b/);
    if (m) return m[1];
    return null;
  }
  \<close>
  \<open>None\<close> is the \<open>null\<close> result.
\<close>

definition extractStudentId :: "jsval \<Rightarrow> jstring option" where
  "extractStudentId rawName =
     (case rawName of
        JStr s \<Rightarrow>
          (case matchIdDash s of
             Some g \<Rightarrow> Some g
           | None \<Rightarrow> matchIdBoundary s)
      | _ \<Rightarrow> None)"

section \<open>Objects used as dictionaries\<close>

text \<open>
  \<open>STUDENTS\<close>, \<open>next\<close> and \<open>studentMap\<close> are plain objects used as dictionaries. An
  object keeps its own properties in insertion order; assigning to an existing key keeps
  the key's position. That is an association list with \<open>AList.update\<close>.
\<close>

type_synonym 'v jsobject = "(jstring \<times> 'v) list"

text \<open>ToPropertyKey of a JSON value: \<open>obj[v]\<close> uses \<open>String(v)\<close> as the key.\<close>

definition propertyKey :: "host \<Rightarrow> jsval \<Rightarrow> jstring" where
  "propertyKey h v = String h v"

text \<open>
  The properties every object literal inherits from \<open>Object.prototype\<close>. Reading one
  of these keys on \<open>{}\<close> gives a truthy value although the object has no such own
  property, and assigning to \<open>__proto__\<close> sets the prototype instead of creating a
  property.
\<close>

definition objectPrototypeKeys :: "jstring list" where
  "objectPrototypeKeys =
     map ustr [''constructor'', ''__defineGetter__'', ''__defineSetter__'', ''hasOwnProperty'',
       ''__lookupGetter__'', ''__lookupSetter__'', ''isPrototypeOf'', ''propertyIsEnumerable'',
       ''toString'', ''valueOf'', ''__proto__'', ''toLocaleString'']"

text \<open>
  \<open>Object.values(obj)\<close>: the own properties whose key is an array index (a canonical
  decimal numeral below \<open>2^32 - 1\<close>) come first, in ascending numeric order, then the
  other keys in insertion order.
\<close>

definition digitsValue :: "jstring \<Rightarrow> nat" where
  "digitsValue k = foldl (\<lambda>acc c. 10 * acc + (c - 0x30)) 0 k"

definition isArrayIndex :: "jstring \<Rightarrow> bool" where
  "isArrayIndex k \<longleftrightarrow>
     k \<noteq> [] \<and> list_all isDigit k \<and> (k = [0x30] \<or> hd k \<noteq> 0x30) \<and> digitsValue k < 2 ^ 32 - 1"

definition objectValues :: "'v jsobject \<Rightarrow> 'v list" where
  "objectValues obj =
     map snd (sort_key (\<lambda>kv. digitsValue (fst kv)) (filter (\<lambda>kv. isArrayIndex (fst kv)) obj)
              @ filter (\<lambda>kv. \<not> isArrayIndex (fst kv)) obj)"

section \<open>The external record store\<close>

text \<open>
  The store answers an HTTP request with a page: \<open>{records: [{id, fields}], offset?}\<close>.
  The envelope is typed as the store's wire contract gives it; the cells inside
  \<open>fields\<close> are JSON values of any type. \<open>records\<close> and \<open>fields\<close> may be missing, as the
  code allows for (\<open>data.records || []\<close>, \<open>r.fields || {}\<close>, \<open>record.fields?.Date\<close>).
  \<open>recId\<close> is the record's \<open>id\<close> and \<open>recFields\<close> its \<open>fields\<close>.
\<close>

record airtableRecord =
  recId :: jstring
  recFields :: "(jstring \<times> jsval) list option"

record page =
  records :: "airtableRecord list option"
  offset :: "jstring option"

text \<open>
  A request is the table of the URL path and its query parameters
  (\<open>URLSearchParams\<close>, where \<open>set\<close> is \<open>AList.update\<close>). The base id and the
  authorisation header are the same in every request and are left out.
\<close>

record request =
  table :: jstring
  params :: "(jstring \<times> jstring) list"

text \<open>
  What \<open>await fetch(url)\<close> gives: the promise rejects (network error) with a message, or
  there is a response with its status, its body as text (\<open>resp.text()\<close>) and its body as
  JSON (\<open>resp.json()\<close>, which rejects with a SyntaxError when the body is not JSON:
  \<open>None\<close>).
\<close>

datatype response =
    Rejected jstring
  | Response nat jstring "page option"

type_synonym store = "request \<Rightarrow> response"

text \<open>\<open>resp.ok\<close>\<close>

definition ok :: "nat \<Rightarrow> bool" where
  "ok status \<longleftrightarrow> 200 \<le> status \<and> status \<le> 299"

text \<open>\<open>record.fields?.[name]\<close> and \<open>(r.fields || {})[name]\<close>\<close>

definition field :: "airtableRecord \<Rightarrow> jstring \<Rightarrow> jsval" where
  "field r name =
     (case recFields r of
        None \<Rightarrow> JUndefined
      | Some kvs \<Rightarrow> (case map_of kvs name of None \<Rightarrow> JUndefined | Some v \<Rightarrow> v))"

text \<open>\<open>data.records || []\<close>\<close>

definition recordsOf :: "page \<Rightarrow> airtableRecord list" where
  "recordsOf data = (case records data of None \<Rightarrow> [] | Some rs \<Rightarrow> rs)"

text \<open>The exceptions a route can meet, and the environment variables the code reads.\<close>

datatype exn =
    FetchError jstring
  | StudentsFetchFailed nat jstring
  | SecretNotSet
  | SyntaxError
  | TypeError

record env =
  PORTAL_PW_SECRET :: jstring
  MASTER_PORTAL_PW :: "jstring option"
  AIRTABLE_STUDENTS_VIEW :: jstring
  AIRTABLE_ATTENDANCE_TABLE :: jstring

text \<open>
  The key material of the two programs, from the environment variable
  \<open>PORTAL_PW_SECRET\<close> (\<open>None\<close> when it is not set). The server refuses to start
  without it:
  \<^verbatim>\<open>
  if (!PORTAL_PW_SECRET) {
    throw new Error("PORTAL_PW_SECRET is not set. Add it to your .env");
  }
  \<close>
  The password-printing script falls back to a built-in text:
  \<^verbatim>\<open>
  const PORTAL_PW_SECRET = process.env.PORTAL_PW_SECRET || "aljkfehGHIUYOGljblajdfb";
  \<close>
\<close>

definition serverSecret :: "jstring option \<Rightarrow> exn + jstring" where
  "serverSecret v =
     (case v of None \<Rightarrow> Inl SecretNotSet | Some s \<Rightarrow> if s = [] then Inl SecretNotSet else Inr s)"

definition scriptSecret :: "jstring option \<Rightarrow> jstring" where
  "scriptSecret v =
     (case v of
        None \<Rightarrow> ustr ''aljkfehGHIUYOGljblajdfb''
      | Some s \<Rightarrow> if s = [] then ustr ''aljkfehGHIUYOGljblajdfb'' else s)"

text \<open>\<open>s.replace(/'/g, "\\'")\<close>: a backslash before every single quote.\<close>

fun escapeQuotes :: "jstring \<Rightarrow> jstring" where
  "escapeQuotes [] = []"
| "escapeQuotes (c # cs) =
     (if c = 0x27 then 0x5C # 0x27 # escapeQuotes cs else c # escapeQuotes cs)"

text \<open>The formula \<open>{<field>}='<value>'\<close> of \<open>filterByFormula\<close>.\<close>

definition fieldEquals :: "string \<Rightarrow> jstring \<Rightarrow> jstring" where
  "fieldEquals fieldName v = ustr ''{'' @ ustr fieldName @ ustr ''}='' @ [0x27] @ v @ [0x27]"

text \<open>\<open>s.includes(sub)\<close> on strings.\<close>

fun strIncludes :: "jstring \<Rightarrow> jstring \<Rightarrow> bool" where
  "strIncludes [] sub = (sub = [])"
| "strIncludes (c # cs) sub = (take (length sub) (c # cs) = sub \<or> strIncludes cs sub)"

section \<open>The in-memory student map\<close>

record named =
  preferredName :: jsval

record identified = named +
  studentId :: jsval

record studentEntry = identified +
  password :: jstring

text \<open>\<open>null\<close> or the extracted token, as a value.\<close>

definition nullable :: "jstring option \<Rightarrow> jsval" where
  "nullable r = (case r of None \<Rightarrow> JNull | Some s \<Rightarrow> JStr s)"

text \<open>
  \<open>next[preferredName] = {...}\<close> on an object literal: the key \<open>__proto__\<close> sets the
  prototype and creates no property.
\<close>

definition assignProp :: "jstring \<Rightarrow> 'v \<Rightarrow> 'v jsobject \<Rightarrow> 'v jsobject" where
  "assignProp k v obj = (if k = ustr ''__proto__'' then obj else AList.update k v obj)"

text \<open>
  The loop of \<open>loadStudentsFromAirtable\<close>:
  \<^verbatim>\<open>
  const next = {};
  for (const r of data.records || []) {
    const fields = r.fields || {};
    const preferredName = fields["Preferred Name"];
    const rawName = fields["Name"];
    const studentId = extractStudentId(rawName) || fields["StudentID"] || null;
    if (!preferredName || !studentId) continue;
    next[preferredName] = { preferredName, studentId, password: derivePassword(studentId) };
  }
  \<close>
\<close>

fun buildStudents :: "host \<Rightarrow> env \<Rightarrow> airtableRecord list \<Rightarrow> studentEntry jsobject \<Rightarrow> studentEntry jsobject" where
  "buildStudents h e [] next = next"
| "buildStudents h e (r # rs) next =
     (let preferredName = field r (ustr ''Preferred Name'');
          rawName = field r (ustr ''Name'');
          studentId = orElse (orElse (nullable (extractStudentId rawName))
                                     (field r (ustr ''StudentID''))) JNull
      in if \<not> truthy preferredName \<or> \<not> truthy studentId then buildStudents h e rs next
         else buildStudents h e rs
                (assignProp (propertyKey h preferredName)
                   \<lparr>preferredName = preferredName, studentId = studentId,
                    password = derivePassword h (PORTAL_PW_SECRET e) studentId\<rparr> next))"

text \<open>
  \<open>loadStudentsFromAirtable\<close>: one request for the table \<open>Students\<close> (with the \<open>view\<close>
  parameter when \<open>AIRTABLE_STUDENTS_VIEW\<close> is set), a throw when the response is not ok,
  otherwise the module variable \<open>STUDENTS\<close> is replaced by the map built from
  \<open>data.records\<close>. \<open>data.offset\<close> is not read. The result is the outcome of the call
  (\<open>Inl\<close> the exception the promise rejects with) and the value of \<open>STUDENTS\<close> afterwards.
\<close>

definition studentsRequest :: "env \<Rightarrow> request" where
  "studentsRequest e =
     \<lparr>table = ustr ''Students'',
      params = (if AIRTABLE_STUDENTS_VIEW e \<noteq> []
                then AList.update (ustr ''view'') (AIRTABLE_STUDENTS_VIEW e) []
                else [])\<rparr>"

definition loadStudentsFromAirtable ::
  "host \<Rightarrow> env \<Rightarrow> store \<Rightarrow> studentEntry jsobject \<Rightarrow> (exn + unit) \<times> studentEntry jsobject" where
  "loadStudentsFromAirtable h e fetch STUDENTS =
     (case fetch (studentsRequest e) of
        Rejected msg \<Rightarrow> (Inl (FetchError msg), STUDENTS)
      | Response status text json \<Rightarrow>
          if \<not> ok status then (Inl (StudentsFetchFailed status text), STUDENTS)
          else (case json of
                  None \<Rightarrow> (Inl SyntaxError, STUDENTS)
                | Some data \<Rightarrow> (Inr (), buildStudents h e (recordsOf data) [])))"

section \<open>Routes\<close>

text \<open>
  What a route sends: \<open>res.status(n).json({error, ...})\<close> with the \<open>details\<close> or
  \<open>message\<close> member some routes add, or the success payload.
\<close>

datatype details = NoDetails | Details jstring | Message exn

datatype 'a reply = Failure nat jstring details | Success 'a

subsection \<open>Finding a student by name\<close>

text \<open>
  \<open>v.trim().toLowerCase()\<close>: a value that is not a string has no \<open>trim\<close> method, and
  the call throws a TypeError (\<open>None\<close>).
\<close>

definition normalizeName :: "host \<Rightarrow> jsval \<Rightarrow> jstring option" where
  "normalizeName h v = (case v of JStr s \<Rightarrow> Some (hostLowerCase h (trim s)) | _ \<Rightarrow> None)"

text \<open>
  \<^verbatim>\<open>
  Object.values(STUDENTS).find(
    (s) => (s.preferredName || "").trim().toLowerCase() === normalized)
  \<close>
  over the list of values: the first match, \<open>undefined\<close> (\<open>None\<close>) without one, and
  \<open>Inl TypeError\<close> when the callback throws before a match is found.
\<close>

fun findByName :: "host \<Rightarrow> jstring \<Rightarrow> studentEntry list \<Rightarrow> exn + studentEntry option" where
  "findByName h normalized [] = Inr None"
| "findByName h normalized (s # ss) =
     (case normalizeName h (orElse (preferredName s) (JStr [])) of
        None \<Rightarrow> Inl TypeError
      | Some n \<Rightarrow> if n = normalized then Inr (Some s) else findByName h normalized ss)"

subsection \<open>POST /login\<close>

record loginOk =
  staffOverride :: bool
  student :: identified

text \<open>
  The handler of \<open>POST /login\<close>, on the members \<open>preferredName\<close> and \<open>password\<close> of the
  request body (\<open>JUndefined\<close> when missing). Any exception is caught and answered with
  status 500.
\<close>

definition login :: "host \<Rightarrow> env \<Rightarrow> studentEntry jsobject \<Rightarrow> jsval \<Rightarrow> jsval \<Rightarrow> loginOk reply" where
  "login h e STUDENTS name pw =
     (if \<not> truthy name \<or> \<not> truthy pw
      then Failure 400 (ustr ''Preferred name and password are required'') NoDetails
      else case normalizeName h name of
        None \<Rightarrow> Failure 500 (ustr ''Server error during login'') NoDetails
      | Some normalized \<Rightarrow>
          (case findByName h normalized (objectValues STUDENTS) of
             Inl err \<Rightarrow> Failure 500 (ustr ''Server error during login'') NoDetails
           | Inr None \<Rightarrow> Failure 401 (ustr ''Invalid credentials'') NoDetails
           | Inr (Some s) \<Rightarrow>
               if (case MASTER_PORTAL_PW e of
                     None \<Rightarrow> False
                   | Some master \<Rightarrow> master \<noteq> [] \<and> strictEq pw (JStr master))
               then Success \<lparr>staffOverride = True,
                      student = \<lparr>preferredName = preferredName s, studentId = studentId s\<rparr>\<rparr>
               else if \<not> strictEq pw (JStr (password s))
               then Failure 401 (ustr ''Invalid credentials'') NoDetails
               else Success \<lparr>staffOverride = False,
                      student = \<lparr>preferredName = preferredName s, studentId = studentId s\<rparr>\<rparr>))"

subsection \<open>Draining a paginated table\<close>

text \<open>
  The routes that read a whole table share this loop, each with its own parameters:
  \<^verbatim>\<open>
  let allRecords = [];
  let offset = null;
  do {
    const params = new URLSearchParams();
    ...
    if (offset) params.set("offset", offset);
    const response = await fetch(...);
    if (!response.ok) { ... return res.status(response.status).json(...); }
    const data = await response.json();
    allRecords = allRecords.concat(data.records || []);
    offset = data.offset;
  } while (offset);
  \<close>
  \<open>withOffset\<close> is the conditional \<open>params.set\<close>. The loop ends with the records, or
  with the response that was not ok, or with the exception of \<open>fetch\<close> or \<open>json()\<close>.
  A store that hands out a cursor on every page keeps the loop running for ever: the
  result is \<open>None\<close>.
\<close>

definition truthyOffset :: "jstring option \<Rightarrow> bool" where
  "truthyOffset cursor = (case cursor of None \<Rightarrow> False | Some c \<Rightarrow> c \<noteq> [])"

definition withOffset :: "jstring option \<Rightarrow> (jstring \<times> jstring) list \<Rightarrow> (jstring \<times> jstring) list" where
  "withOffset cursor ps =
     (case cursor of
        None \<Rightarrow> ps
      | Some c \<Rightarrow> if c \<noteq> [] then AList.update (ustr ''offset'') c ps else ps)"

datatype drainError = NotOk nat jstring | Thrown exn

partial_function (option) drain ::
  "store \<Rightarrow> (jstring option \<Rightarrow> request) \<Rightarrow> jstring option \<Rightarrow> airtableRecord list
     \<Rightarrow> (drainError + airtableRecord list) option" where
  "drain fetch mkRequest cursor allRecords =
     (case fetch (mkRequest cursor) of
        Rejected msg \<Rightarrow> Some (Inl (Thrown (FetchError msg)))
      | Response status text json \<Rightarrow>
          if \<not> ok status then Some (Inl (NotOk status text))
          else (case json of
                  None \<Rightarrow> Some (Inl (Thrown SyntaxError))
                | Some data \<Rightarrow>
                    if truthyOffset (offset data)
                    then drain fetch mkRequest (offset data) (allRecords @ recordsOf data)
                    else Some (Inr (allRecords @ recordsOf data))))"

subsection \<open>GET /attendance/:preferredName\<close>

text \<open>\<open>a >= b\<close> on two Date objects: false when either time value is NaN.\<close>

definition dateGe :: "int option \<Rightarrow> int option \<Rightarrow> bool" where
  "dateGe a b = (case a of None \<Rightarrow> False | Some x \<Rightarrow> (case b of None \<Rightarrow> False | Some y \<Rightarrow> y \<le> x))"

text \<open>\<open>v ?? null\<close>\<close>

definition nullish :: "jsval \<Rightarrow> jsval" where
  "nullish v = (if v = JUndefined \<or> v = JNull then JNull else v)"

text \<open>\<open>const courseStartDate = new Date('2026-01-12')\<close>\<close>

definition courseStartDate :: "host \<Rightarrow> int option" where
  "courseStartDate h = hostDate h (JStr (ustr ''2026-01-12''))"

text \<open>
  The callback of \<open>allRecords.filter\<close>:
  \<^verbatim>\<open>
  (record) => {
    const recordDate = record.fields?.Date;
    if (!recordDate) return false;
    const date = new Date(recordDate);
    return date >= courseStartDate;
  }
  \<close>
\<close>

definition onOrAfterStart :: "host \<Rightarrow> airtableRecord \<Rightarrow> bool" where
  "onOrAfterStart h r =
     (let recordDate = field r (ustr ''Date'')
      in if \<not> truthy recordDate then False
         else dateGe (hostDate h recordDate) (courseStartDate h))"

record attendanceRow =
  recordId :: jstring
  date :: jsval
  course :: jsval
  blockA :: jsval
  blockB :: jsval
  blockC :: jsval
  blockD :: jsval

text \<open>The callback of \<open>.map\<close>.\<close>

definition toAttendanceRow :: "airtableRecord \<Rightarrow> attendanceRow" where
  "toAttendanceRow r =
     \<lparr>recordId = recId r,
      date = orElse (field r (ustr ''Date'')) JNull,
      course = orElse (field r (ustr ''Current Course (from Student)'')) JNull,
      blockA = nullish (field r (ustr ''Block A'')),
      blockB = nullish (field r (ustr ''Block B'')),
      blockC = nullish (field r (ustr ''Block C'')),
      blockD = nullish (field r (ustr ''Block D''))\<rparr>"

text \<open>The request of one round of the loop of this route.\<close>

definition attendanceRequest :: "env \<Rightarrow> jstring \<Rightarrow> jstring option \<Rightarrow> request" where
  "attendanceRequest e safeName cursor =
     \<lparr>table = AIRTABLE_ATTENDANCE_TABLE e,
      params = withOffset cursor
        (AList.update (ustr ''sort[0][direction]'') (ustr ''desc'')
          (AList.update (ustr ''sort[0][field]'') (ustr ''Date'')
            (AList.update (ustr ''filterByFormula'') (fieldEquals ''PreferredNameText'' safeName) [])))\<rparr>"

text \<open>
  The handler of \<open>GET /attendance/:preferredName\<close>; the route parameter is a string.
  \<open>student.preferredName.replace\<close> throws when the found entry's name is not a string.
\<close>

definition listAttendance ::
  "host \<Rightarrow> env \<Rightarrow> store \<Rightarrow> studentEntry jsobject \<Rightarrow> jstring \<Rightarrow> attendanceRow list reply option" where
  "listAttendance h e fetch STUDENTS name =
     (case findByName h (hostLowerCase h (trim name)) (objectValues STUDENTS) of
        Inl err \<Rightarrow> Some (Failure 500 (ustr ''Server error fetching attendance'') (Message err))
      | Inr None \<Rightarrow> Some (Failure 404 (ustr ''Student not found'') NoDetails)
      | Inr (Some s) \<Rightarrow>
          (case preferredName s of
             JStr n \<Rightarrow>
               (case drain fetch (attendanceRequest e (escapeQuotes n)) None [] of
                  None \<Rightarrow> None
                | Some (Inl (NotOk status errorText)) \<Rightarrow>
                    Some (Failure status (ustr ''Failed to fetch from Airtable'') (Details errorText))
                | Some (Inl (Thrown err)) \<Rightarrow>
                    Some (Failure 500 (ustr ''Server error fetching attendance'') (Message err))
                | Some (Inr allRecords) \<Rightarrow>
                    Some (Success (map toAttendanceRow (filter (onOrAfterStart h) allRecords))))
           | _ \<Rightarrow> Some (Failure 500 (ustr ''Server error fetching attendance'') (Message TypeError))))"

subsection \<open>GET /teacher/class/:className\<close>

record tally = named +
  absences :: nat
  tardies :: nat
  totalBlocks :: nat

record summary = tally +
  percentMissed :: jsval

definition courseRequest :: "jstring \<Rightarrow> request" where
  "courseRequest className =
     \<lparr>table = ustr ''Courses'',
      params = AList.update (ustr ''filterByFormula'')
                 (fieldEquals ''Name'' (escapeQuotes className)) []\<rparr>"

text \<open>
  The first request of the route: \<open>courseRecordId\<close> and \<open>startDate\<close> start as \<open>null\<close>
  and are set from the first record when the response is ok and has one.
  \<^verbatim>\<open>
  if (courseResponse.ok) {
    const courseData = await courseResponse.json();
    if (courseData.records && courseData.records.length > 0) {
      courseRecordId = courseData.records[0].id;
      startDate = courseData.records[0].fields?.["Start Date"];
    }
  }
  \<close>
\<close>

definition lookupCourse :: "store \<Rightarrow> jstring \<Rightarrow> exn + (jstring option \<times> jsval)" where
  "lookupCourse fetch className =
     (case fetch (courseRequest className) of
        Rejected msg \<Rightarrow> Inl (FetchError msg)
      | Response status text json \<Rightarrow>
          if ok status
          then (case json of
                  None \<Rightarrow> Inl SyntaxError
                | Some courseData \<Rightarrow>
                    (case records courseData of
                       Some (r # rs) \<Rightarrow> Inr (Some (recId r), field r (ustr ''Start Date''))
                     | _ \<Rightarrow> Inr (None, JNull)))
          else Inr (None, JNull))"

definition classRequest :: "env \<Rightarrow> jstring option \<Rightarrow> request" where
  "classRequest e cursor = \<lparr>table = AIRTABLE_ATTENDANCE_TABLE e, params = withOffset cursor []\<rparr>"

text \<open>
  The callback of \<open>allRecords.filter\<close>:
  \<^verbatim>\<open>
  record => {
    const courses = record.fields?.["Current Course (from Student)"] || [];
    const recordDate = record.fields?.["Date"];
    const courseMatches = Array.isArray(courses) && courses.includes(courseRecordId);
    const dateMatches = recordDate ? new Date(recordDate) >= startDateObj : false;
    return courseMatches && dateMatches;
  }
  \<close>
\<close>

definition courseMatches :: "jstring \<Rightarrow> airtableRecord \<Rightarrow> bool" where
  "courseMatches courseRecordId r =
     (case orElse (field r (ustr ''Current Course (from Student)'')) (JArr []) of
        JArr courses \<Rightarrow> list_ex (\<lambda>c. strictEq c (JStr courseRecordId)) courses
      | _ \<Rightarrow> False)"

definition dateMatches :: "host \<Rightarrow> int option \<Rightarrow> airtableRecord \<Rightarrow> bool" where
  "dateMatches h startDateObj r =
     (let recordDate = field r (ustr ''Date'')
      in if truthy recordDate then dateGe (hostDate h recordDate) startDateObj else False)"

definition inCourseWindow :: "host \<Rightarrow> jstring \<Rightarrow> int option \<Rightarrow> airtableRecord \<Rightarrow> bool" where
  "inCourseWindow h courseRecordId startDateObj r \<longleftrightarrow>
     courseMatches courseRecordId r \<and> dateMatches h startDateObj r"

text \<open>
  \<open>status.includes(sub)\<close> for a truthy cell: a substring test on a string, a membership
  test on an array, and a TypeError (\<open>None\<close>) on a number, \<open>true\<close> or an object, which
  have no \<open>includes\<close> method.
\<close>

definition statusIncludes :: "jsval \<Rightarrow> jstring \<Rightarrow> bool option" where
  "statusIncludes status sub =
     (case status of
        JStr s \<Rightarrow> Some (strIncludes s sub)
      | JArr xs \<Rightarrow> Some (list_ex (\<lambda>x. strictEq x (JStr sub)) xs)
      | _ \<Rightarrow> None)"

text \<open>
  The body of the loop over the four blocks, on the student's counters:
  \<^verbatim>\<open>
  const status = record.fields?.[blockName];
  if (status) {
    studentMap[preferredName].totalBlocks++;
    if (status.includes("Absent")) {
      studentMap[preferredName].absences++;
    } else if (status.includes("Tardy")) {
      studentMap[preferredName].tardies++;
    }
  }
  \<close>
\<close>

definition blockStep :: "airtableRecord \<Rightarrow> tally \<Rightarrow> jstring \<Rightarrow> tally option" where
  "blockStep r t blockName =
     (let status = field r blockName
      in if truthy status
         then (case statusIncludes status (ustr ''Absent'') of
                 None \<Rightarrow> None
               | Some True \<Rightarrow> Some (t\<lparr>absences := absences t + 1, totalBlocks := totalBlocks t + 1\<rparr>)
               | Some False \<Rightarrow>
                   (case statusIncludes status (ustr ''Tardy'') of
                      None \<Rightarrow> None
                    | Some True \<Rightarrow> Some (t\<lparr>tardies := tardies t + 1, totalBlocks := totalBlocks t + 1\<rparr>)
                    | Some False \<Rightarrow> Some (t\<lparr>totalBlocks := totalBlocks t + 1\<rparr>)))
         else Some t)"

definition blockNames :: "jstring list" where
  "blockNames = map ustr [''Block A'', ''Block B'', ''Block C'', ''Block D'']"

fun foldBlocks :: "airtableRecord \<Rightarrow> jstring list \<Rightarrow> tally \<Rightarrow> tally option" where
  "foldBlocks r [] t = Some t"
| "foldBlocks r (b # bs) t =
     (case blockStep r t b of None \<Rightarrow> None | Some t' \<Rightarrow> foldBlocks r bs t')"

text \<open>
  \<open>PreferredNameText\<close> of a row, with the first element taken when it is an array
  (\<open>undefined\<close> for the empty array).
\<close>

definition rowName :: "airtableRecord \<Rightarrow> jsval" where
  "rowName r =
     (case field r (ustr ''PreferredNameText'') of
        JArr xs \<Rightarrow> (case xs of [] \<Rightarrow> JUndefined | x # _ \<Rightarrow> x)
      | v \<Rightarrow> v)"

text \<open>
  The callback of \<open>courseRecords.forEach\<close>. A row without a name is skipped. Otherwise
  \<open>studentMap[preferredName]\<close> is created with zero counters unless it is truthy
  already, and the four blocks are counted on it. For a name that is a key of
  \<open>Object.prototype\<close> the read is truthy without an own property: nothing is created
  and the counters land on the inherited object, outside \<open>studentMap\<close>. A TypeError in
  the block loop ends the route.
\<close>

definition aggregateRow :: "host \<Rightarrow> tally jsobject \<Rightarrow> airtableRecord \<Rightarrow> tally jsobject option" where
  "aggregateRow h studentMap r =
     (let name = rowName r
      in if \<not> truthy name then Some studentMap
         else let key = propertyKey h name;
                  fresh = \<lparr>preferredName = name, absences = 0, tardies = 0, totalBlocks = 0\<rparr>
              in if key \<in> set objectPrototypeKeys
                 then (case foldBlocks r blockNames fresh of
                         None \<Rightarrow> None
                       | Some t \<Rightarrow> Some studentMap)
                 else (case foldBlocks r blockNames
                              (case map_of studentMap key of None \<Rightarrow> fresh | Some t \<Rightarrow> t) of
                         None \<Rightarrow> None
                       | Some t \<Rightarrow> Some (AList.update key t studentMap)))"

fun aggregate :: "host \<Rightarrow> airtableRecord list \<Rightarrow> tally jsobject \<Rightarrow> tally jsobject option" where
  "aggregate h [] studentMap = Some studentMap"
| "aggregate h (r # rs) studentMap =
     (case aggregateRow h studentMap r of
        None \<Rightarrow> None
      | Some studentMap' \<Rightarrow> aggregate h rs studentMap')"

text \<open>
  The callback of \<open>.filter\<close> before the join:
  \<open>s && s.preferredName && typeof s.preferredName === 'string'\<close>.
\<close>

definition hasStringName :: "tally \<Rightarrow> bool" where
  "hasStringName s = (case preferredName s of JStr n \<Rightarrow> n \<noteq> [] | _ \<Rightarrow> False)"

definition percentRequest :: "jstring \<Rightarrow> request" where
  "percentRequest name =
     \<lparr>table = ustr ''Students'',
      params = AList.update (ustr ''filterByFormula'')
                 (fieldEquals ''Preferred Name'' (escapeQuotes name)) []\<rparr>"

text \<open>\<open>fields[name] || 0\<close>; reading a property of \<open>undefined\<close> throws (\<open>None\<close>).\<close>

definition readOrZero :: "(jstring \<times> jsval) list option \<Rightarrow> jstring \<Rightarrow> jsval option" where
  "readOrZero flds name =
     (case flds of
        None \<Rightarrow> None
      | Some kvs \<Rightarrow>
          Some (orElse (case map_of kvs name of None \<Rightarrow> JUndefined | Some v \<Rightarrow> v) (JNum 0)))"

text \<open>
  \<^verbatim>\<open>
  let percentMissed = 0;
  if (className.includes("Frontend") || className.includes("FE")) {
    percentMissed = fields["% missed FE"] || 0;
  } else if (className.includes("Backend") || className.includes("BE")) {
    percentMissed = fields["% missed BE"] || 0;
  } else if (className.includes("TCF") || className.includes("ITP")) {
    percentMissed = fields["% missed TCF/ITP"] || 0;
  }
  \<close>
\<close>

definition pickPercent :: "jstring \<Rightarrow> (jstring \<times> jsval) list option \<Rightarrow> jsval option" where
  "pickPercent className flds =
     (if strIncludes className (ustr ''Frontend'') \<or> strIncludes className (ustr ''FE'')
      then readOrZero flds (ustr ''% missed FE'')
      else if strIncludes className (ustr ''Backend'') \<or> strIncludes className (ustr ''BE'')
      then readOrZero flds (ustr ''% missed BE'')
      else if strIncludes className (ustr ''TCF'') \<or> strIncludes className (ustr ''ITP'')
      then readOrZero flds (ustr ''% missed TCF/ITP'')
      else Some (JNum 0))"

text \<open>\<open>{ ...student, percentMissed }\<close>\<close>

definition spread :: "tally \<Rightarrow> jsval \<Rightarrow> summary" where
  "spread s p =
     \<lparr>preferredName = preferredName s, absences = absences s, tardies = tardies s,
      totalBlocks = totalBlocks s, percentMissed = p\<rparr>"

text \<open>
  The callback of \<open>.map\<close>, one request per student inside its own \<open>try\<close>/\<open>catch\<close>: the
  percentage when the response is ok and has a record, and \<open>percentMissed: null\<close> when
  the response is not ok, has no record, or anything throws.
\<close>

definition withPercent :: "store \<Rightarrow> jstring \<Rightarrow> tally \<Rightarrow> summary" where
  "withPercent fetch className s =
     (case preferredName s of
        JStr n \<Rightarrow>
          (case fetch (percentRequest n) of
             Rejected msg \<Rightarrow> spread s JNull
           | Response status text json \<Rightarrow>
               if ok status
               then (case json of
                       None \<Rightarrow> spread s JNull
                     | Some studentData \<Rightarrow>
                         (case records studentData of
                            Some (r # rs) \<Rightarrow>
                              (case pickPercent className (recFields r) of
                                 None \<Rightarrow> spread s JNull
                               | Some p \<Rightarrow> spread s p)
                          | _ \<Rightarrow> spread s JNull))
               else spread s JNull)
      | _ \<Rightarrow> spread s JNull)"

text \<open>
  \<open>studentsWithPercent.sort((a, b) => a.preferredName.localeCompare(b.preferredName))\<close>:
  a stable sort, written as insertion sort. The names are strings here (the filter
  before the join keeps nothing else).
\<close>

definition compareNames :: "host \<Rightarrow> summary \<Rightarrow> summary \<Rightarrow> int" where
  "compareNames h a b =
     (case preferredName a of
        JStr x \<Rightarrow> (case preferredName b of JStr y \<Rightarrow> hostLocaleCompare h x y | _ \<Rightarrow> 0)
      | _ \<Rightarrow> 0)"

fun insertSorted :: "host \<Rightarrow> summary \<Rightarrow> summary list \<Rightarrow> summary list" where
  "insertSorted h x [] = [x]"
| "insertSorted h x (y # ys) =
     (if compareNames h x y \<le> 0 then x # y # ys else y # insertSorted h x ys)"

definition sortStudents :: "host \<Rightarrow> summary list \<Rightarrow> summary list" where
  "sortStudents h xs = foldr (insertSorted h) xs []"

text \<open>The handler of \<open>GET /teacher/class/:className\<close>.\<close>

definition summarizeClass ::
  "host \<Rightarrow> env \<Rightarrow> store \<Rightarrow> jstring \<Rightarrow> summary list reply option" where
  "summarizeClass h e fetch className =
     (case lookupCourse fetch className of
        Inl err \<Rightarrow> Some (Failure 500 (ustr ''Server error fetching class summary'') NoDetails)
      | Inr (courseRecordId, startDate) \<Rightarrow>
          (case courseRecordId of
             None \<Rightarrow> Some (Failure 404 (ustr ''Course not found'') NoDetails)
           | Some cid \<Rightarrow>
               if cid = [] then Some (Failure 404 (ustr ''Course not found'') NoDetails)
               else if \<not> truthy startDate
               then Some (Failure 400 (ustr ''Course start date not set'') NoDetails)
               else (case drain fetch (classRequest e) None [] of
                       None \<Rightarrow> None
                     | Some (Inl (NotOk status errorText)) \<Rightarrow>
                         Some (Failure status (ustr ''Failed to fetch class data'') NoDetails)
                     | Some (Inl (Thrown err)) \<Rightarrow>
                         Some (Failure 500 (ustr ''Server error fetching class summary'') NoDetails)
                     | Some (Inr allRecords) \<Rightarrow>
                         (case aggregate h
                                 (filter (inCourseWindow h cid (hostDate h startDate)) allRecords) [] of
                            None \<Rightarrow>
                              Some (Failure 500 (ustr ''Server error fetching class summary'') NoDetails)
                          | Some studentMap \<Rightarrow>
                              Some (Success
                                (sortStudents h
                                  (map (withPercent fetch className)
                                    (filter hasStringName (objectValues studentMap)))))))))"

subsection \<open>Notions used to state the properties of the class summary\<close>

text \<open>
  What one block contributes, read off the loop body: a truthy status marks an absence
  when \<open>includes("Absent")\<close> holds, a tardy when that fails and \<open>includes("Tardy")\<close>
  holds, and is recorded in any case. \<open>rowKey\<close> is the key of \<open>studentMap\<close> a row is
  counted under, and \<open>addTally\<close> adds the marks of a list of rows to a student's
  counters.
\<close>

definition marksAbsent :: "jsval \<Rightarrow> bool" where
  "marksAbsent status \<longleftrightarrow> truthy status \<and> statusIncludes status (ustr ''Absent'') = Some True"

definition marksTardy :: "jsval \<Rightarrow> bool" where
  "marksTardy status \<longleftrightarrow>
     truthy status \<and> statusIncludes status (ustr ''Absent'') = Some False \<and>
     statusIncludes status (ustr ''Tardy'') = Some True"

definition absentBlocks :: "airtableRecord \<Rightarrow> nat" where
  "absentBlocks r = length (filter (\<lambda>b. marksAbsent (field r b)) blockNames)"

definition tardyBlocks :: "airtableRecord \<Rightarrow> nat" where
  "tardyBlocks r = length (filter (\<lambda>b. marksTardy (field r b)) blockNames)"

definition recordedBlocks :: "airtableRecord \<Rightarrow> nat" where
  "recordedBlocks r = length (filter (\<lambda>b. truthy (field r b)) blockNames)"

definition rowKey :: "host \<Rightarrow> airtableRecord \<Rightarrow> jstring option" where
  "rowKey h r = (if truthy (rowName r) then Some (propertyKey h (rowName r)) else None)"

definition addTally :: "tally \<Rightarrow> airtableRecord list \<Rightarrow> tally" where
  "addTally t rows =
     t\<lparr>absences := absences t + sum_list (map absentBlocks rows),
       tardies := tardies t + sum_list (map tardyBlocks rows),
       totalBlocks := totalBlocks t + sum_list (map recordedBlocks rows)\<rparr>"

text \<open>
  The ways the percentage lookup of one student can fail: the request throws, the
  response is not ok, the body is not JSON, or there is no matching record.
\<close>

definition lookupFails :: "response \<Rightarrow> bool" where
  "lookupFails resp =
     (case resp of
        Rejected msg \<Rightarrow> True
      | Response status body json \<Rightarrow>
          \<not> ok status \<or>
          (case json of
             None \<Rightarrow> True
           | Some data \<Rightarrow> (case records data of Some (r # rs) \<Rightarrow> False | _ \<Rightarrow> True)))"

section \<open>Sample data\<close>

text \<open>
  A stand-in for the host functions, to run the model on concrete inputs: dates in the
  date-only ISO form \<open>YYYY-MM-DD\<close> (read as UTC midnight, as \<open>new Date\<close> does), ASCII
  lower case, comparison by code units, and a 32-byte digest that is not SHA-256.
\<close>

definition daysFromCivil :: "int \<Rightarrow> int \<Rightarrow> int \<Rightarrow> int" where
  "daysFromCivil y m d =
     (let y' = (if m \<le> 2 then y - 1 else y);
          era = y' div 400;
          yoe = y' - era * 400;
          doy = (153 * (if 2 < m then m - 3 else m + 9) + 2) div 5 + d - 1;
          doe = yoe * 365 + yoe div 4 - yoe div 100 + doy
      in era * 146097 + doe - 719468)"

definition isoDate :: "jsval \<Rightarrow> int option" where
  "isoDate v =
     (case v of
        JStr s \<Rightarrow>
          if length s = 10 \<and> list_all isDigit (take 4 s) \<and> s ! 4 = 0x2D \<and>
             list_all isDigit (take 2 (drop 5 s)) \<and> s ! 7 = 0x2D \<and> list_all isDigit (drop 8 s)
          then (let y = digitsValue (take 4 s);
                    m = digitsValue (take 2 (drop 5 s));
                    d = digitsValue (drop 8 s)
                in if 1 \<le> m \<and> m \<le> 12 \<and> 1 \<le> d \<and> d \<le> 31
                   then Some (daysFromCivil (int y) (int m) (int d) * 86400000)
                   else None)
          else None
      | _ \<Rightarrow> None)"

fun codeUnitCompare :: "jstring \<Rightarrow> jstring \<Rightarrow> int" where
  "codeUnitCompare [] [] = 0"
| "codeUnitCompare [] (b # bs) = - 1"
| "codeUnitCompare (a # as) [] = 1"
| "codeUnitCompare (a # as) (b # bs) =
     (if a < b then - 1 else if b < a then 1 else codeUnitCompare as bs)"

definition demoDigest :: "jstring \<Rightarrow> jstring \<Rightarrow> 8 word list" where
  "demoDigest key msg = map (\<lambda>i. of_nat (i + length key + sum_list msg)) [0..<32]"

definition demoHost :: host where
  "demoHost =
     \<lparr>hostToString = (\<lambda>v. ustr ''[object Object]''),
      hostDate = isoDate,
      hostLowerCase = map (\<lambda>c. if 0x41 \<le> c \<and> c \<le> 0x5A then c + 32 else c),
      hostLocaleCompare = codeUnitCompare,
      hostHmacSha256 = demoDigest\<rparr>"

definition demoEnv :: env where
  "demoEnv =
     \<lparr>PORTAL_PW_SECRET = ustr ''portal-secret'',
      MASTER_PORTAL_PW = Some (ustr ''staff-override''),
      AIRTABLE_STUDENTS_VIEW = [],
      AIRTABLE_ATTENDANCE_TABLE = ustr ''Attendance''\<rparr>"

text \<open>A row of the table \<open>Students\<close>.\<close>

definition studentRow :: "string \<Rightarrow> string \<Rightarrow> string \<Rightarrow> airtableRecord" where
  "studentRow rid pname fullName =
     \<lparr>recId = ustr rid,
      recFields = Some [(ustr ''Preferred Name'', JStr (ustr pname)),
                        (ustr ''Name'', JStr (ustr fullName))]\<rparr>"

text \<open>
  A store whose table \<open>Students\<close> has two pages: the request without \<open>offset\<close> gets the
  first record and a cursor, the request with the cursor gets the second record.
\<close>

definition pagedStudents :: store where
  "pagedStudents q =
     (if table q = ustr ''Students''
      then (case map_of (params q) (ustr ''offset'') of
              None \<Rightarrow>
                Response 200 []
                  (Some \<lparr>records = Some [studentRow ''rec1'' ''Ann'' ''S001 - Ann Lee''],
                         offset = Some (ustr ''itr1/rec1'')\<rparr>)
            | Some c \<Rightarrow>
                Response 200 []
                  (Some \<lparr>records = Some [studentRow ''rec2'' ''Bob'' ''S002 - Bob Ray''],
                         offset = None\<rparr>))
      else Response 404 (ustr ''NOT_FOUND'') None)"

text \<open>A store that is down: every request gets status 503.\<close>

definition failingStore :: store where
  "failingStore q = Response 503 (ustr ''Service Unavailable'') None"

definition oneStudent :: "studentEntry jsobject" where
  "oneStudent =
     [(ustr ''Sam'',
       \<lparr>preferredName = JStr (ustr ''Sam''), studentId = JStr (ustr ''S010''),
        password = derivePassword demoHost (PORTAL_PW_SECRET demoEnv) (JStr (ustr ''S010''))\<rparr>)]"

text \<open>
  A store with a few attendance rows, one course and one percentage record. The
  attendance table answers a filtered request with the rows of Sam, and an unfiltered
  request in two pages. One of Sam's rows is dated before the course start. The table
  \<open>Students\<close> has a record for Sam and fails with status 500 for anyone else.
\<close>

definition attendanceOf :: "string \<Rightarrow> string \<Rightarrow> string \<Rightarrow> string \<Rightarrow> (string \<times> string) list \<Rightarrow> airtableRecord" where
  "attendanceOf rid who day courseId blocks =
     \<lparr>recId = ustr rid,
      recFields = Some ([(ustr ''PreferredNameText'', JStr (ustr who)),
                         (ustr ''Date'', JStr (ustr day)),
                         (ustr ''Current Course (from Student)'', JArr [JStr (ustr courseId)])]
                        @ map (\<lambda>(b, st). (ustr b, JStr (ustr st))) blocks)\<rparr>"

definition samJan15 :: airtableRecord where
  "samJan15 = attendanceOf ''recA1'' ''Sam'' ''2026-01-15'' ''recFE''
                [(''Block A'', ''Absent''), (''Block B'', ''Present''), (''Block C'', ''Tardy'')]"

definition samJan10 :: airtableRecord where
  "samJan10 = attendanceOf ''recA2'' ''Sam'' ''2026-01-10'' ''recFE'' [(''Block A'', ''Absent'')]"

definition kimJan14 :: airtableRecord where
  "kimJan14 = attendanceOf ''recA3'' ''Kim'' ''2026-01-14'' ''recFE''
                [(''Block A'', ''Tardy, then Absent''), (''Block B'', ''Present'')]"

definition leeJan20 :: airtableRecord where
  "leeJan20 = attendanceOf ''recA4'' ''Lee'' ''2026-01-20'' ''recBE'' [(''Block A'', ''Absent'')]"

definition schoolStoreWith :: "airtableRecord list \<Rightarrow> airtableRecord list \<Rightarrow> store" where
  "schoolStoreWith page1 page2 q =
     (if table q = ustr ''Attendance''
      then (case map_of (params q) (ustr ''filterByFormula'') of
              Some f \<Rightarrow> Response 200 [] (Some \<lparr>records = Some page1, offset = None\<rparr>)
            | None \<Rightarrow>
                (case map_of (params q) (ustr ''offset'') of
                   None \<Rightarrow>
                     Response 200 [] (Some \<lparr>records = Some page1, offset = Some (ustr ''itr2'')\<rparr>)
                 | Some c \<Rightarrow>
                     Response 200 [] (Some \<lparr>records = Some page2, offset = None\<rparr>)))
      else if table q = ustr ''Courses''
      then Response 200 []
             (Some \<lparr>records = Some [\<lparr>recId = ustr ''recFE'',
                                     recFields = Some [(ustr ''Name'', JStr (ustr ''Frontend Jan 2026'')),
                                                       (ustr ''Start Date'', JStr (ustr ''2026-01-12''))]\<rparr>],
                    offset = None\<rparr>)
      else if q = percentRequest (ustr ''Sam'')
      then Response 200 []
             (Some \<lparr>records = Some [\<lparr>recId = ustr ''recS1'',
                                     recFields = Some [(ustr ''% missed FE'', JNum (25 / 2))]\<rparr>],
                    offset = None\<rparr>)
      else Response 500 (ustr ''INTERNAL'') None)"

definition schoolStore :: store where
  "schoolStore = schoolStoreWith [samJan15, samJan10] [kimJan14, leeJan20]"

text \<open>The same store without the two rows that are outside the course window.\<close>

definition windowOnlyStore :: store where
  "windowOnlyStore = schoolStoreWith [samJan15] [kimJan14]"

text \<open>The same store with the percentage lookup of Sam answered by status 503.\<close>

definition samLookupDown :: store where
  "samLookupDown = schoolStore(percentRequest (ustr ''Sam'') := Response 503 (ustr ''down'') None)"

text \<open>The counters and the summaries the sample store leads to.\<close>

definition samTally :: tally where
  "samTally = \<lparr>preferredName = JStr (ustr ''Sam''), absences = 1, tardies = 1, totalBlocks = 3\<rparr>"

definition kimTally :: tally where
  "kimTally = \<lparr>preferredName = JStr (ustr ''Kim''), absences = 1, tardies = 0, totalBlocks = 2\<rparr>"

definition samSummary :: summary where
  "samSummary =
     \<lparr>preferredName = JStr (ustr ''Sam''), absences = 1, tardies = 1, totalBlocks = 3,
      percentMissed = JNum (25 / 2)\<rparr>"

definition kimSummary :: summary where
  "kimSummary =
     \<lparr>preferredName = JStr (ustr ''Kim''), absences = 1, tardies = 0, totalBlocks = 2,
      percentMissed = JNull\<rparr>"

section \<open>Verification\<close>

subsection \<open>Strings\<close>

lemma dropWhile_rev_keep:
  "\<not> P x \<Longrightarrow> \<exists>zs. dropWhile P (rev (x # u)) = zs @ [x]"
  by (simp add: dropWhile_append)

lemma dropWhile_frontier:
  assumes "u = [] \<or> \<not> P (hd u)"
  shows "dropWhile P (rev (dropWhile P (rev u))) = rev (dropWhile P (rev u))"
proof (cases u)
  case Nil
  then show ?thesis by simp
next
  case (Cons x u')
  with assms have nx: "\<not> P x" by simp
  then have "\<exists>zs. dropWhile P (rev (x # u')) = zs @ [x]"
    by (rule dropWhile_rev_keep)
  then obtain zs where "dropWhile P (rev (x # u')) = zs @ [x]" ..
  with Cons nx show ?thesis by simp
qed

lemma dropWhile_head: "dropWhile P s = [] \<or> \<not> P (hd (dropWhile P s))"
  by (metis hd_dropWhile)

lemma trim_idem: "trim (trim s) = trim s"
proof -
  have "dropWhile isWhiteSpace (trim s) = trim s"
    unfolding trim_def by (rule dropWhile_frontier) (rule dropWhile_head)
  then show ?thesis
    by (simp add: trim_def)
qed

lemma length_base64url: "length (base64url bs) = (4 * length bs + 2) div 3"
  by (induction bs rule: base64url.induct) auto

lemma b64char_urlsafe: "isLetter (b64char n) \<or> isDigit (b64char n) \<or> b64char n = 0x2D \<or> b64char n = 0x5F"
  unfolding b64char_def isLetter_def isDigit_def by (simp split: if_splits) arith

lemma base64url_urlsafe:
  "c \<in> set (base64url bs) \<Longrightarrow> isLetter c \<or> isDigit c \<or> c = 0x2D \<or> c = 0x5F"
  by (induction bs rule: base64url.induct) (use b64char_urlsafe in auto)

subsection \<open>The identity extractor\<close>

text \<open>
  C7. The extractor on the four texts of the specification: \<open>S022 - Jane Doe\<close>, the same
  with an em dash (U+2014) and no spaces, \<open>S022\<close> alone, and \<open>Jane Doe\<close>, which gives
  \<open>null\<close>.
\<close>

theorem extractStudentId_examples:
  "extractStudentId (JStr (ustr ''S022 - Jane Doe'')) = Some (ustr ''S022'') \<and>
   extractStudentId (JStr (ustr ''S022'' @ [0x2014] @ ustr ''Jane Doe'')) = Some (ustr ''S022'') \<and>
   extractStudentId (JStr (ustr ''S022'')) = Some (ustr ''S022'') \<and>
   extractStudentId (JStr (ustr ''Jane Doe'')) = None"
  by (simp add: extractStudentId_def matchIdDash_def matchIdBoundary_def idGroup_def ustr_def
      isLetter_def isDigit_def isWhiteSpace_def isDash_def isWordChar_def)

subsection \<open>The credential deriver\<close>

text \<open>
  C9. With a digest of 32 bytes (the size of SHA-256), the derived secret depends on
  the token only through its trimmed text: two tokens with the same trimmed text get
  the same secret, and a token gets the secret of its trimmed text. The secret is
  \<open>ac-\<close>, five characters, a hyphen and six characters; the eleven characters are the
  first eleven of the base64url text of the digest of the trimmed token, all of them
  from the URL-safe alphabet.
\<close>

theorem derivePassword_trimmed_shape:
  assumes digest: "\<And>key msg. length (hostHmacSha256 h key msg) = 32"
  shows "(trim T = trim T' \<longrightarrow>
            derivePassword h secret (JStr T) = derivePassword h secret (JStr T')) \<and>
         derivePassword h secret (JStr (trim T)) = derivePassword h secret (JStr T) \<and>
         (\<exists>a b. derivePassword h secret (JStr T) = ustr ''ac-'' @ a @ ustr ''-'' @ b \<and>
                length a = 5 \<and> length b = 6 \<and>
                a @ b = take 11 (base64url (map unat (hostHmacSha256 h secret (trim T)))) \<and>
                (\<forall>c \<in> set (a @ b). isLetter c \<or> isDigit c \<or> c = 0x2D \<or> c = 0x5F))"
proof -
  let ?raw = "base64url (map unat (hostHmacSha256 h secret (trim T)))"
  have len: "length ?raw = 43"
    by (simp add: length_base64url digest)
  have same: "trim T = trim T' \<longrightarrow>
      derivePassword h secret (JStr T) = derivePassword h secret (JStr T')"
    by (simp add: derivePassword_def String_def)
  have trimmed: "derivePassword h secret (JStr (trim T)) = derivePassword h secret (JStr T)"
    by (simp add: derivePassword_def String_def trim_idem)
  have eq: "derivePassword h secret (JStr T) = ustr ''ac-'' @ slice 0 5 ?raw @ ustr ''-'' @ slice 5 11 ?raw"
    by (simp add: derivePassword_def String_def Let_def)
  have la: "length (slice 0 5 ?raw) = 5" and lb: "length (slice 5 11 ?raw) = 6"
    using len by (simp_all add: slice_def)
  have cat: "slice 0 5 ?raw @ slice 5 11 ?raw = take 11 ?raw"
    by (simp add: slice_def take_add [of 5 6 ?raw, simplified])
  have safe: "\<forall>c \<in> set (slice 0 5 ?raw @ slice 5 11 ?raw). isLetter c \<or> isDigit c \<or> c = 0x2D \<or> c = 0x5F"
    unfolding cat using base64url_urlsafe by (blast dest: in_set_takeD)
  from eq la lb cat safe have "\<exists>a b. derivePassword h secret (JStr T) = ustr ''ac-'' @ a @ ustr ''-'' @ b \<and>
                length a = 5 \<and> length b = 6 \<and> a @ b = take 11 ?raw \<and>
                (\<forall>c \<in> set (a @ b). isLetter c \<or> isDigit c \<or> c = 0x2D \<or> c = 0x5F)"
    by blast
  with same trimmed show ?thesis by blast
qed

theorem derivePassword_trimmed_shape_witness:
  "trim (ustr '' S022  '') = trim (ustr ''S022'') \<and>
   derivePassword demoHost (ustr ''k'') (JStr (ustr '' S022  '')) =
     derivePassword demoHost (ustr ''k'') (JStr (ustr ''S022'')) \<and>
   (\<exists>a b. derivePassword demoHost (ustr ''k'') (JStr (ustr '' S022  '')) =
            ustr ''ac-'' @ a @ ustr ''-'' @ b \<and> length a = 5 \<and> length b = 6)"
proof -
  have digest: "\<And>key msg. length (hostHmacSha256 demoHost key msg) = 32"
    by (simp add: demoHost_def demoDigest_def)
  have same: "trim (ustr '' S022  '') = trim (ustr ''S022'')"
    by (simp add: trim_def ustr_def isWhiteSpace_def)
  from derivePassword_trimmed_shape [OF digest, of "ustr '' S022  ''" "ustr ''S022''" "ustr ''k''"] same
  show ?thesis by blast
qed

text \<open>
  C10. The server's \<open>derivePassword\<close> and the script's compute the same function: for
  every key and every student identifier the two secrets are equal. And whenever the
  server starts, the script runs with the server's key, so it prints the secrets the
  server derives.
\<close>

theorem derivePassword_script_agrees:
  "derivePassword_script h secret sid = derivePassword h secret sid \<and>
   (serverSecret v = Inr k \<longrightarrow>
      derivePassword_script h (scriptSecret v) sid = derivePassword h k sid)"
  by (auto simp add: derivePassword_script_def derivePassword_def serverSecret_def
      scriptSecret_def split: option.splits if_splits)

theorem derivePassword_script_agrees_witness:
  "serverSecret (Some (ustr ''portal-secret'')) = Inr (ustr ''portal-secret'') \<and>
   derivePassword_script demoHost (scriptSecret (Some (ustr ''portal-secret''))) (JStr (ustr ''S010'')) =
     derivePassword demoHost (ustr ''portal-secret'') (JStr (ustr ''S010''))"
proof -
  have set: "serverSecret (Some (ustr ''portal-secret'')) = Inr (ustr ''portal-secret'')"
    by (simp add: serverSecret_def ustr_def)
  from derivePassword_script_agrees [of demoHost "ustr ''portal-secret''" "JStr (ustr ''S010'')"
      "Some (ustr ''portal-secret'')" "ustr ''portal-secret''"]
  have "serverSecret (Some (ustr ''portal-secret'')) = Inr (ustr ''portal-secret'') \<longrightarrow>
      derivePassword_script demoHost (scriptSecret (Some (ustr ''portal-secret''))) (JStr (ustr ''S010'')) =
        derivePassword demoHost (ustr ''portal-secret'') (JStr (ustr ''S010''))"
    by (rule conjunct2)
  from this set have "derivePassword_script demoHost (scriptSecret (Some (ustr ''portal-secret'')))
        (JStr (ustr ''S010'')) =
      derivePassword demoHost (ustr ''portal-secret'') (JStr (ustr ''S010''))"
    by (rule mp)
  with set show ?thesis by (intro conjI)
qed

subsection \<open>Directory refresh\<close>

text \<open>
  C3. A refresh whose request is answered with a non-success status ends with the
  exception \<open>Students fetch failed\<close> (carrying the status and the body text) and leaves
  \<open>STUDENTS\<close> as it was. More generally, whenever the refresh ends with an exception,
  \<open>STUDENTS\<close> is unchanged.
\<close>

theorem loadStudents_failure_keeps_map:
  "(fetch (studentsRequest e) = Response status text json \<and> \<not> ok status \<longrightarrow>
      loadStudentsFromAirtable h e fetch STUDENTS =
        (Inl (StudentsFetchFailed status text), STUDENTS)) \<and>
   (fst (loadStudentsFromAirtable h e fetch STUDENTS) = Inl err \<longrightarrow>
      snd (loadStudentsFromAirtable h e fetch STUDENTS) = STUDENTS)"
  by (auto simp add: loadStudentsFromAirtable_def split: response.splits option.splits)

theorem loadStudents_failure_keeps_map_witness:
  "failingStore (studentsRequest demoEnv) = Response 503 (ustr ''Service Unavailable'') None \<and>
   \<not> ok 503 \<and>
   loadStudentsFromAirtable demoHost demoEnv failingStore oneStudent =
     (Inl (StudentsFetchFailed 503 (ustr ''Service Unavailable'')), oneStudent) \<and>
   oneStudent \<noteq> []"
proof -
  have down: "failingStore (studentsRequest demoEnv) = Response 503 (ustr ''Service Unavailable'') None"
    by (simp add: failingStore_def)
  have status: "\<not> ok 503"
    by (simp add: ok_def)
  have prior: "oneStudent \<noteq> []"
    by (simp add: oneStudent_def)
  have step: "failingStore (studentsRequest demoEnv) = Response 503 (ustr ''Service Unavailable'') None \<and>
       \<not> ok 503 \<longrightarrow>
     loadStudentsFromAirtable demoHost demoEnv failingStore oneStudent =
       (Inl (StudentsFetchFailed 503 (ustr ''Service Unavailable'')), oneStudent)"
    by (rule conjunct1 [OF loadStudents_failure_keeps_map])
  have kept: "loadStudentsFromAirtable demoHost demoEnv failingStore oneStudent =
       (Inl (StudentsFetchFailed 503 (ustr ''Service Unavailable'')), oneStudent)"
    by (rule mp [OF step]) (intro conjI down status)
  show ?thesis
    by (intro conjI down status kept prior)
qed

lemma pagedStudents_first:
  "\<exists>text data. pagedStudents (studentsRequest demoEnv) = Response 200 text (Some data) \<and>
       offset data = Some (ustr ''itr1/rec1'')"
  by (simp add: pagedStudents_def studentsRequest_def demoEnv_def)

lemma pagedStudents_drained:
  "drain pagedStudents (\<lambda>cursor. \<lparr>table = ustr ''Students'', params = withOffset cursor []\<rparr>)
       None [] =
     Some (Inr [studentRow ''rec1'' ''Ann'' ''S001 - Ann Lee'',
                studentRow ''rec2'' ''Bob'' ''S002 - Bob Ray''])"
  by (simp add: drain.simps pagedStudents_def withOffset_def ok_def truthyOffset_def
        recordsOf_def ustr_def)

lemma pagedStudents_load:
  "loadStudentsFromAirtable demoHost demoEnv pagedStudents [] =
     (Inr (), [(ustr ''Ann'', \<lparr>preferredName = JStr (ustr ''Ann''), studentId = JStr (ustr ''S001''),
        password = derivePassword demoHost (PORTAL_PW_SECRET demoEnv) (JStr (ustr ''S001''))\<rparr>)])"
  by (simp add: loadStudentsFromAirtable_def pagedStudents_def studentsRequest_def demoEnv_def
      ok_def recordsOf_def studentRow_def field_def nullable_def orElse_def assignProp_def
      propertyKey_def String_def Let_def
      extractStudentId_def matchIdDash_def matchIdBoundary_def idGroup_def ustr_def
      isLetter_def isDigit_def isWhiteSpace_def isDash_def isWordChar_def)

lemma pagedStudents_loaded:
  "fst (loadStudentsFromAirtable demoHost demoEnv pagedStudents []) = Inr ()"
  by (simp add: pagedStudents_load)

lemma pagedStudents_published:
  "map fst (snd (loadStudentsFromAirtable demoHost demoEnv pagedStudents [])) = [ustr ''Ann'']"
  by (simp add: pagedStudents_load)

text \<open>
  C2. The refresh on a store whose table \<open>Students\<close> has two pages. The first response
  carries a cursor, and the loop of the other routes gets both records from this store.
  The refresh succeeds and publishes a map with the student of the first page only:
  the student of the second page is missing.
\<close>

theorem loadStudents_reads_first_page_only:
  "(\<exists>text data. pagedStudents (studentsRequest demoEnv) = Response 200 text (Some data) \<and>
       offset data = Some (ustr ''itr1/rec1'')) \<and>
   drain pagedStudents (\<lambda>cursor. \<lparr>table = ustr ''Students'', params = withOffset cursor []\<rparr>)
       None [] =
     Some (Inr [studentRow ''rec1'' ''Ann'' ''S001 - Ann Lee'',
                studentRow ''rec2'' ''Bob'' ''S002 - Bob Ray'']) \<and>
   fst (loadStudentsFromAirtable demoHost demoEnv pagedStudents []) = Inr () \<and>
   map fst (snd (loadStudentsFromAirtable demoHost demoEnv pagedStudents [])) = [ustr ''Ann'']"
  by (intro conjI pagedStudents_first pagedStudents_drained pagedStudents_loaded
      pagedStudents_published)

subsection \<open>Login\<close>

lemma strictEq_JStr: "strictEq v (JStr p) \<longleftrightarrow> v = JStr p"
  by (cases v) (simp_all add: strictEq_def)

lemma normalizeName_orElse:
  "normalizeName h (orElse (JStr n) (JStr [])) = Some (hostLowerCase h (trim n))"
  by (cases "n = []") (simp_all add: normalizeName_def orElse_def)

lemma findByName_unknown:
  assumes "\<forall>s \<in> set ss. \<exists>n. preferredName s = JStr n"
    and "\<forall>s \<in> set ss. \<forall>n. preferredName s = JStr n \<longrightarrow> hostLowerCase h (trim n) \<noteq> normalized"
  shows "findByName h normalized ss = Inr None"
  using assms
proof (induction ss)
  case Nil
  then show ?case by simp
next
  case (Cons s ss)
  from Cons.prems(1) obtain n where n: "preferredName s = JStr n" by auto
  with Cons.prems(2) have "hostLowerCase h (trim n) \<noteq> normalized" by simp
  with n Cons show ?case by (simp add: normalizeName_orElse)
qed

lemma findByName_known:
  assumes "\<forall>s \<in> set ss. \<exists>n. preferredName s = JStr n"
    and "\<exists>s \<in> set ss. \<exists>n. preferredName s = JStr n \<and> hostLowerCase h (trim n) = normalized"
  shows "\<exists>s \<in> set ss. findByName h normalized ss = Inr (Some s) \<and>
           (\<exists>n. preferredName s = JStr n \<and> hostLowerCase h (trim n) = normalized)"
  using assms
proof (induction ss)
  case Nil
  then show ?case by simp
next
  case (Cons s ss)
  from Cons.prems(1) obtain n where n: "preferredName s = JStr n" by auto
  show ?case
  proof (cases "hostLowerCase h (trim n) = normalized")
    case True
    with n show ?thesis by (auto simp add: normalizeName_orElse)
  next
    case False
    with n Cons.prems have "\<exists>s \<in> set ss. \<exists>n. preferredName s = JStr n \<and> hostLowerCase h (trim n) = normalized"
      by auto
    with Cons.IH Cons.prems(1) have "\<exists>s \<in> set ss. findByName h normalized ss = Inr (Some s) \<and>
           (\<exists>n. preferredName s = JStr n \<and> hostLowerCase h (trim n) = normalized)" by simp
    with n False show ?thesis by (auto simp add: normalizeName_orElse)
  qed
qed

text \<open>
  C8. In a directory whose names are strings, a login with a supplied name and password
  gets the same answer, status 401 with the error \<open>Invalid credentials\<close>, when no entry
  has the (trimmed, lower-cased) name and when an entry has it but the password is
  neither that entry's password nor the master password.
\<close>

theorem login_failure_uniform:
  assumes strings: "\<forall>s \<in> set (objectValues STUDENTS). \<exists>n. preferredName s = JStr n"
    and supplied: "a1 \<noteq> []" "a2 \<noteq> []" "truthy pw1" "truthy pw2"
    and unknown: "\<forall>s \<in> set (objectValues STUDENTS). \<forall>n. preferredName s = JStr n \<longrightarrow>
                    hostLowerCase h (trim n) \<noteq> hostLowerCase h (trim a1)"
    and known: "\<exists>s \<in> set (objectValues STUDENTS). \<exists>n. preferredName s = JStr n \<and>
                    hostLowerCase h (trim n) = hostLowerCase h (trim a2)"
    and wrong: "\<forall>s \<in> set (objectValues STUDENTS). \<forall>n. preferredName s = JStr n \<and>
                    hostLowerCase h (trim n) = hostLowerCase h (trim a2) \<longrightarrow> pw2 \<noteq> JStr (password s)"
    and notMaster: "\<forall>m. MASTER_PORTAL_PW e = Some m \<longrightarrow> pw2 \<noteq> JStr m"
  shows "login h e STUDENTS (JStr a1) pw1 = Failure 401 (ustr ''Invalid credentials'') NoDetails \<and>
         login h e STUDENTS (JStr a2) pw2 = Failure 401 (ustr ''Invalid credentials'') NoDetails \<and>
         login h e STUDENTS (JStr a1) pw1 = login h e STUDENTS (JStr a2) pw2"
proof -
  have f1: "findByName h (hostLowerCase h (trim a1)) (objectValues STUDENTS) = Inr None"
    using strings unknown by (rule findByName_unknown)
  have r1: "login h e STUDENTS (JStr a1) pw1 = Failure 401 (ustr ''Invalid credentials'') NoDetails"
    using supplied f1 by (simp add: login_def normalizeName_def)
  from findByName_known [OF strings known] obtain s n
    where s: "s \<in> set (objectValues STUDENTS)"
      and f2: "findByName h (hostLowerCase h (trim a2)) (objectValues STUDENTS) = Inr (Some s)"
      and n: "preferredName s = JStr n" "hostLowerCase h (trim n) = hostLowerCase h (trim a2)"
    by blast
  from wrong s n have w: "pw2 \<noteq> JStr (password s)" by blast
  have m: "\<not> (case MASTER_PORTAL_PW e of None \<Rightarrow> False
               | Some master \<Rightarrow> master \<noteq> [] \<and> strictEq pw2 (JStr master))"
    using notMaster by (simp add: strictEq_JStr split: option.splits)
  have r2: "login h e STUDENTS (JStr a2) pw2 = Failure 401 (ustr ''Invalid credentials'') NoDetails"
    using supplied f2 w m by (simp add: login_def normalizeName_def strictEq_JStr)
  from r1 r2 show ?thesis by simp
qed

lemma objectValues_oneStudent:
  "objectValues oneStudent =
     [\<lparr>preferredName = JStr (ustr ''Sam''), studentId = JStr (ustr ''S010''),
       password = derivePassword demoHost (PORTAL_PW_SECRET demoEnv) (JStr (ustr ''S010''))\<rparr>]"
  by (simp add: objectValues_def oneStudent_def isArrayIndex_def ustr_def isDigit_def)


theorem login_failure_uniform_witness:
  "login demoHost demoEnv oneStudent (JStr (ustr ''Zed'')) (JStr (ustr ''guess'')) =
     Failure 401 (ustr ''Invalid credentials'') NoDetails \<and>
   login demoHost demoEnv oneStudent (JStr (ustr '' SAM '')) (JStr (ustr ''guess'')) =
     Failure 401 (ustr ''Invalid credentials'') NoDetails \<and>
   login demoHost demoEnv oneStudent (JStr (ustr ''Zed'')) (JStr (ustr ''guess'')) =
     login demoHost demoEnv oneStudent (JStr (ustr '' SAM '')) (JStr (ustr ''guess''))"
proof (rule login_failure_uniform)
  show "\<forall>s \<in> set (objectValues oneStudent). \<exists>n. preferredName s = JStr n"
    by (simp add: objectValues_oneStudent)
  show "ustr ''Zed'' \<noteq> []" and "ustr '' SAM '' \<noteq> []"
    by (simp_all add: ustr_def)
  show "truthy (JStr (ustr ''guess''))" and "truthy (JStr (ustr ''guess''))"
    by (simp_all add: ustr_def)
  show "\<forall>s \<in> set (objectValues oneStudent). \<forall>n. preferredName s = JStr n \<longrightarrow>
          hostLowerCase demoHost (trim n) \<noteq> hostLowerCase demoHost (trim (ustr ''Zed''))"
    by (simp add: objectValues_oneStudent demoHost_def trim_def ustr_def
        isWhiteSpace_def)
  show "\<exists>s \<in> set (objectValues oneStudent). \<exists>n. preferredName s = JStr n \<and>
          hostLowerCase demoHost (trim n) = hostLowerCase demoHost (trim (ustr '' SAM ''))"
    by (simp add: objectValues_oneStudent demoHost_def trim_def ustr_def
        isWhiteSpace_def)
  show "\<forall>s \<in> set (objectValues oneStudent). \<forall>n. preferredName s = JStr n \<and>
          hostLowerCase demoHost (trim n) = hostLowerCase demoHost (trim (ustr '' SAM '')) \<longrightarrow>
          JStr (ustr ''guess'') \<noteq> JStr (password s)"
    by (simp add: objectValues_oneStudent derivePassword_def Let_def ustr_def)
  show "\<forall>m. MASTER_PORTAL_PW demoEnv = Some m \<longrightarrow> JStr (ustr ''guess'') \<noteq> JStr m"
    by (simp add: demoEnv_def ustr_def)
qed

subsection \<open>Attendance of one student\<close>

lemma onOrAfterStart_date:
  "onOrAfterStart h r \<Longrightarrow>
     \<exists>t t0. hostDate h (date (toAttendanceRow r)) = Some t \<and> courseStartDate h = Some t0 \<and> t0 \<le> t"
  by (auto simp add: onOrAfterStart_def toAttendanceRow_def orElse_def dateGe_def Let_def
      split: if_splits option.splits)

text \<open>
  C1. Every row that \<open>GET /attendance/:preferredName\<close> returns has a date whose time
  value is not before that of the course start, the fixed date 2026-01-12 of the
  handler, whatever rows the store returned.
\<close>

theorem listAttendance_not_before_start:
  assumes "listAttendance h e fetch STUDENTS name = Some (Success rows)"
  shows "\<forall>row \<in> set rows. \<exists>t t0. hostDate h (date row) = Some t \<and>
            courseStartDate h = Some t0 \<and> t0 \<le> t"
proof -
  from assms obtain allRecords where
    rows: "rows = map toAttendanceRow (filter (onOrAfterStart h) allRecords)"
    by (auto simp add: listAttendance_def
        split: sum.splits option.splits jsval.splits drainError.splits)
  show ?thesis
    unfolding rows using onOrAfterStart_date by auto
qed


lemma sam_found:
  "findByName demoHost (hostLowerCase demoHost (trim (ustr ''sam ''))) (objectValues oneStudent) =
     Inr (Some \<lparr>preferredName = JStr (ustr ''Sam''), studentId = JStr (ustr ''S010''),
       password = derivePassword demoHost (PORTAL_PW_SECRET demoEnv) (JStr (ustr ''S010''))\<rparr>)"
  by (simp add: objectValues_oneStudent normalizeName_def orElse_def demoHost_def trim_def
      ustr_def isWhiteSpace_def)

lemma sam_drained:
  "drain schoolStore (attendanceRequest demoEnv (escapeQuotes (ustr ''Sam''))) None [] =
     Some (Inr [samJan15, samJan10])"
  by (simp add: drain.simps schoolStore_def schoolStoreWith_def attendanceRequest_def
      withOffset_def demoEnv_def
      ok_def truthyOffset_def recordsOf_def fieldEquals_def ustr_def)

lemma samJan15_kept: "onOrAfterStart demoHost samJan15"
  by (simp add: onOrAfterStart_def courseStartDate_def samJan15_def attendanceOf_def field_def
      demoHost_def dateGe_def isoDate_def ustr_def isDigit_def digitsValue_def
      daysFromCivil_def Let_def)

lemma samJan10_dropped: "\<not> onOrAfterStart demoHost samJan10"
  by (simp add: onOrAfterStart_def courseStartDate_def samJan10_def attendanceOf_def field_def
      demoHost_def dateGe_def isoDate_def ustr_def isDigit_def digitsValue_def
      daysFromCivil_def Let_def)

lemma sam_attendance:
  "listAttendance demoHost demoEnv schoolStore oneStudent (ustr ''sam '') =
     Some (Success [toAttendanceRow samJan15])"
  by (simp add: listAttendance_def sam_found sam_drained samJan15_kept samJan10_dropped)

theorem listAttendance_not_before_start_witness:
  "drain schoolStore (attendanceRequest demoEnv (escapeQuotes (ustr ''Sam''))) None [] =
     Some (Inr [samJan15, samJan10]) \<and>
   listAttendance demoHost demoEnv schoolStore oneStudent (ustr ''sam '') =
     Some (Success [toAttendanceRow samJan15]) \<and>
   (\<exists>t t0. hostDate demoHost (date (toAttendanceRow samJan15)) = Some t \<and>
       courseStartDate demoHost = Some t0 \<and> t0 \<le> t)"
proof (intro conjI sam_drained sam_attendance)
  show "\<exists>t t0. hostDate demoHost (date (toAttendanceRow samJan15)) = Some t \<and>
       courseStartDate demoHost = Some t0 \<and> t0 \<le> t"
    by (rule bspec [OF listAttendance_not_before_start [OF sam_attendance]]) simp
qed

subsection \<open>Class summary\<close>

lemma strIncludes_iff: "strIncludes s sub \<longleftrightarrow> (\<exists>p q. s = p @ sub @ q)"
proof (induction s)
  case Nil
  then show ?case by auto
next
  case (Cons c cs)
  show ?case
  proof
    assume "strIncludes (c # cs) sub"
    then consider "take (length sub) (c # cs) = sub" | "strIncludes cs sub" by auto
    then show "\<exists>p q. c # cs = p @ sub @ q"
    proof cases
      case 1
      then have "c # cs = [] @ sub @ drop (length sub) (c # cs)"
        by (metis append_Nil append_take_drop_id)
      then show ?thesis by blast
    next
      case 2
      with Cons.IH obtain p q where "cs = p @ sub @ q" by blast
      then have "c # cs = (c # p) @ sub @ q" by simp
      then show ?thesis by blast
    qed
  next
    assume "\<exists>p q. c # cs = p @ sub @ q"
    then obtain p q where pq: "c # cs = p @ sub @ q" by blast
    show "strIncludes (c # cs) sub"
    proof (cases p)
      case Nil
      with pq have "take (length sub) (c # cs) = sub" by simp
      then show ?thesis by simp
    next
      case (Cons a p')
      with pq have "cs = p' @ sub @ q" by simp
      with Cons.IH have "strIncludes cs sub" by blast
      then show ?thesis by simp
    qed
  qed
qed

lemma escapeQuotes_no_leading_quote: "escapeQuotes s \<noteq> 0x27 # t"
  by (cases s) auto

lemma escapeQuotes_inj: "escapeQuotes a = escapeQuotes b \<Longrightarrow> a = b"
proof (induction a arbitrary: b)
  case Nil
  then show ?case by (cases b) (auto split: if_splits)
next
  case (Cons x xs)
  then show ?case
  proof (cases b)
    case Nil
    with Cons.prems show ?thesis by (auto split: if_splits)
  next
    case (Cons y ys)
    with Cons.prems Cons.IH [of ys] show ?thesis
      using escapeQuotes_no_leading_quote [of xs] escapeQuotes_no_leading_quote [of ys]
        escapeQuotes_no_leading_quote [of xs, symmetric]
        escapeQuotes_no_leading_quote [of ys, symmetric]
      by (auto split: if_splits)
  qed
qed

lemma percentRequest_inj: "percentRequest a = percentRequest b \<Longrightarrow> a = b"
  by (auto simp add: percentRequest_def fieldEquals_def dest: escapeQuotes_inj)

lemma set_insertSorted: "set (insertSorted h x ys) = insert x (set ys)"
  by (induction ys) auto

lemma set_sortStudents: "set (sortStudents h xs) = set xs"
  by (induction xs) (simp_all add: sortStudents_def set_insertSorted)

lemma compareNames_map:
  assumes "\<And>s. preferredName (g s) = preferredName s"
  shows "compareNames h (g x) (g y) = compareNames h x y"
  unfolding compareNames_def assms by (rule refl)

lemma insertSorted_map:
  assumes "\<And>s. preferredName (g s) = preferredName s"
  shows "insertSorted h (g x) (map g ys) = map g (insertSorted h x ys)"
  by (induction ys) (simp_all add: compareNames_map [OF assms])

lemma sortStudents_map:
  assumes "\<And>s. preferredName (g s) = preferredName s"
  shows "sortStudents h (map g xs) = map g (sortStudents h xs)"
  by (induction xs) (simp_all add: sortStudents_def insertSorted_map [OF assms])

lemma set_objectValues: "set (objectValues obj) = snd ` set obj"
  by (auto simp add: objectValues_def)


lemma blockStep_counts:
  assumes "blockStep r t b = Some t'"
  shows "t' = t\<lparr>absences := absences t + (if marksAbsent (field r b) then 1 else 0),
               tardies := tardies t + (if marksTardy (field r b) then 1 else 0),
               totalBlocks := totalBlocks t + (if truthy (field r b) then 1 else 0)\<rparr>"
  using assms
  by (auto simp add: blockStep_def Let_def marksAbsent_def marksTardy_def
      split: if_splits option.splits bool.splits)

lemma foldBlocks_counts:
  assumes "foldBlocks r bs t = Some t'"
  shows "t' = t\<lparr>absences := absences t + length (filter (\<lambda>b. marksAbsent (field r b)) bs),
               tardies := tardies t + length (filter (\<lambda>b. marksTardy (field r b)) bs),
               totalBlocks := totalBlocks t + length (filter (\<lambda>b. truthy (field r b)) bs)\<rparr>"
  using assms
proof (induction bs arbitrary: t)
  case Nil
  then show ?case by simp
next
  case (Cons b bs)
  from Cons.prems obtain t1 where s: "blockStep r t b = Some t1" and f: "foldBlocks r bs t1 = Some t'"
    by (auto split: option.splits)
  from blockStep_counts [OF s] Cons.IH [OF f] show ?case
    by simp
qed

lemma foldBlocks_row:
  "foldBlocks r blockNames t = Some t' \<Longrightarrow> t' = addTally t [r]"
  by (drule foldBlocks_counts)
     (simp add: addTally_def absentBlocks_def tardyBlocks_def recordedBlocks_def)

lemma addTally_Nil: "addTally t [] = t"
  by (simp add: addTally_def)

lemma addTally_Cons: "addTally (addTally t [r]) rs = addTally t (r # rs)"
  by (simp add: addTally_def add.assoc)

lemma aggregateRow_map_of:
  assumes "aggregateRow h m r = Some m1"
  shows "map_of m1 k =
     (if rowKey h r = Some k \<and> k \<notin> set objectPrototypeKeys
      then Some (addTally (case map_of m k of
                             None \<Rightarrow> \<lparr>preferredName = rowName r, absences = 0, tardies = 0, totalBlocks = 0\<rparr>
                           | Some t \<Rightarrow> t) [r])
      else map_of m k)"
  using assms
  by (auto simp add: aggregateRow_def Let_def rowKey_def update_conv'
      split: if_splits option.splits dest!: foldBlocks_row)

lemma aggregateRow_distinct:
  "aggregateRow h m r = Some m1 \<Longrightarrow> distinct (map fst m) \<Longrightarrow> distinct (map fst m1)"
  by (auto simp add: aggregateRow_def Let_def distinct_update split: if_splits option.splits)

lemma aggregate_distinct:
  "aggregate h rows m = Some m' \<Longrightarrow> distinct (map fst m) \<Longrightarrow> distinct (map fst m')"
  by (induction rows arbitrary: m) (auto split: option.splits dest: aggregateRow_distinct)


lemma aggregate_map_of:
  assumes "aggregate h rows m = Some m'"
  shows "map_of m' k =
     (if k \<in> set objectPrototypeKeys \<or> filter (\<lambda>r. rowKey h r = Some k) rows = []
      then map_of m k
      else Some (addTally
                  (case map_of m k of
                     None \<Rightarrow> \<lparr>preferredName = rowName (hd (filter (\<lambda>r. rowKey h r = Some k) rows)),
                              absences = 0, tardies = 0, totalBlocks = 0\<rparr>
                   | Some t \<Rightarrow> t)
                  (filter (\<lambda>r. rowKey h r = Some k) rows)))"
  using assms
proof (induction rows arbitrary: m)
  case Nil
  then show ?case by simp
next
  case (Cons r rows)
  from Cons.prems obtain m1 where
    step: "aggregateRow h m r = Some m1" and rest: "aggregate h rows m1 = Some m'"
    by (auto split: option.splits)
  note one = aggregateRow_map_of [OF step, of k]
  note ih = Cons.IH [OF rest]
  show ?case
  proof (cases "rowKey h r = Some k \<and> k \<notin> set objectPrototypeKeys")
    case True
    with one ih show ?thesis
      by (simp add: addTally_Cons addTally_Nil split: option.splits)
  next
    case False
    with one ih show ?thesis
      by (auto split: option.splits)
  qed
qed


lemma drain_transfer:
  assumes run: "drain fetch mk c a = Some y"
  shows "(\<forall>c. fetch' (mk c) = fetch (mk c)) \<longrightarrow> drain fetch' mk c a = Some y"
  using run
proof (induction fetch mk c a y rule: drain.raw_induct)
  case (1 drain' fetch mk c a y)
  show ?case
  proof
    assume same: "\<forall>c. fetch' (mk c) = fetch (mk c)"
    then have here: "fetch' (mk c) = fetch (mk c)" ..
    show "drain fetch' mk c a = Some y"
    proof (cases "fetch (mk c)")
      case (Rejected msg)
      with "1.hyps" here show ?thesis
        by (subst drain.simps) simp
    next
      case (Response status body json)
      show ?thesis
      proof (cases "ok status")
        case False
        with Response "1.hyps" here show ?thesis
          by (subst drain.simps) simp
      next
        case True
        show ?thesis
        proof (cases json)
          case None
          with True Response "1.hyps" here show ?thesis
            by (subst drain.simps) simp
        next
          case (Some data)
          show ?thesis
          proof (cases "truthyOffset (offset data)")
            case False
            with Some True Response "1.hyps" here show ?thesis
              by (subst drain.simps) simp
          next
            case more: True
            with Some True Response "1.hyps"
            have approx: "drain' fetch mk (offset data) (a @ recordsOf data) = Some y"
              by simp
            from "1.prems" more Some True Response
            have "drain fetch mk (offset data) (a @ recordsOf data) = Some y"
              by (subst (asm) drain.simps) simp
            from "1.IH" [OF approx this] same
            have "drain fetch' mk (offset data) (a @ recordsOf data) = Some y"
              by blast
            with more Some True Response here show ?thesis
              by (subst drain.simps) simp
          qed
        qed
      qed
    qed
  qed
qed (rule run)

lemma drain_cong:
  assumes same: "\<And>c. fetch' (mk c) = fetch (mk c)"
  shows "drain fetch' mk c a = drain fetch mk c a"
proof (cases "drain fetch mk c a")
  case (Some y)
  with drain_transfer [of fetch mk c a y fetch'] same show ?thesis by simp
next
  case None
  show ?thesis
  proof (cases "drain fetch' mk c a")
    case inner: None
    with None show ?thesis by simp
  next
    case (Some y)
    with drain_transfer [of fetch' mk c a y fetch] same have "drain fetch mk c a = Some y"
      by simp
    with None show ?thesis by simp
  qed
qed


lemma summarizeClass_Success:
  assumes "summarizeClass h e fetch className = Some (Success students)"
  shows "\<exists>cid startDate allRecords m.
           lookupCourse fetch className = Inr (Some cid, startDate) \<and>
           cid \<noteq> [] \<and> truthy startDate \<and>
           drain fetch (classRequest e) None [] = Some (Inr allRecords) \<and>
           aggregate h (filter (inCourseWindow h cid (hostDate h startDate)) allRecords) [] = Some m \<and>
           students = sortStudents h (map (withPercent fetch className)
                                        (filter hasStringName (objectValues m)))"
  using assms
  by (auto simp add: summarizeClass_def
      split: sum.splits option.splits if_splits drainError.splits prod.splits)

lemma withPercent_spread: "\<exists>p. withPercent fetch className t = spread t p"
  by (auto simp add: withPercent_def split: jsval.splits response.splits option.splits list.splits)

lemma withPercent_fields:
  "preferredName (withPercent fetch className t) = preferredName t"
  "absences (withPercent fetch className t) = absences t"
  "tardies (withPercent fetch className t) = tardies t"
  "totalBlocks (withPercent fetch className t) = totalBlocks t"
  using withPercent_spread [of fetch className t] by (auto simp add: spread_def)

lemma hd_filter_holds: "filter P xs \<noteq> [] \<Longrightarrow> P (hd (filter P xs)) \<and> hd (filter P xs) \<in> set xs"
proof -
  assume ne: "filter P xs \<noteq> []"
  then have "hd (filter P xs) \<in> set (filter P xs)" by (rule hd_in_set)
  then show ?thesis by simp
qed

lemma aggregate_entry:
  assumes agg: "aggregate h rows [] = Some m" and t: "t \<in> set (objectValues m)"
  shows "\<exists>k. filter (\<lambda>r. rowKey h r = Some k) rows \<noteq> [] \<and>
             t = addTally \<lparr>preferredName = rowName (hd (filter (\<lambda>r. rowKey h r = Some k) rows)),
                            absences = 0, tardies = 0, totalBlocks = 0\<rparr>
                          (filter (\<lambda>r. rowKey h r = Some k) rows)"
proof -
  from t obtain k where kt: "(k, t) \<in> set m"
    by (auto simp add: set_objectValues)
  from aggregate_distinct [OF agg] have "distinct (map fst m)" by simp
  with kt have "map_of m k = Some t" by simp
  with aggregate_map_of [OF agg, of k] show ?thesis
    by (auto split: if_splits)
qed

lemma aggregate_student:
  assumes agg: "aggregate h rows [] = Some m" and t: "t \<in> set (objectValues m)"
    and n: "preferredName t = JStr n"
  shows "(\<exists>r \<in> set rows. rowName r = JStr n) \<and>
         t = addTally \<lparr>preferredName = JStr n, absences = 0, tardies = 0, totalBlocks = 0\<rparr>
                      (filter (\<lambda>r. rowKey h r = Some n) rows)"
proof -
  from aggregate_entry [OF agg t] obtain k where
    ne: "filter (\<lambda>r. rowKey h r = Some k) rows \<noteq> []" and
    eq: "t = addTally \<lparr>preferredName = rowName (hd (filter (\<lambda>r. rowKey h r = Some k) rows)),
                            absences = 0, tardies = 0, totalBlocks = 0\<rparr>
                          (filter (\<lambda>r. rowKey h r = Some k) rows)"
    by blast
  let ?r = "hd (filter (\<lambda>r. rowKey h r = Some k) rows)"
  from hd_filter_holds [OF ne] have key: "rowKey h ?r = Some k" and mem: "?r \<in> set rows"
    by simp_all
  from eq have "preferredName t = rowName ?r"
    by (simp add: addTally_def)
  with n have name: "rowName ?r = JStr n" by simp
  with key have "k = n"
    by (simp add: rowKey_def propertyKey_def String_def split: if_splits)
  with eq name mem show ?thesis by auto
qed


lemma marksAbsent_text: "marksAbsent (JStr st) \<longleftrightarrow> (\<exists>p q. st = p @ ustr ''Absent'' @ q)"
  by (auto simp add: marksAbsent_def statusIncludes_def strIncludes_iff ustr_def)

lemma marksTardy_text:
  "marksTardy (JStr st) \<longleftrightarrow>
     (\<exists>p q. st = p @ ustr ''Tardy'' @ q) \<and> \<not> (\<exists>p q. st = p @ ustr ''Absent'' @ q)"
  by (auto simp add: marksTardy_def statusIncludes_def strIncludes_iff ustr_def)

lemma courseMatches_iff:
  "courseMatches cid r \<longleftrightarrow>
     (\<exists>courses. field r (ustr ''Current Course (from Student)'') = JArr courses \<and>
                JStr cid \<in> set courses)"
  by (auto simp add: courseMatches_def orElse_def list_ex_iff strictEq_JStr
      split: jsval.splits if_splits)

lemma dateMatches_iff:
  "dateMatches h startDateObj r \<longleftrightarrow>
     (\<exists>t t0. hostDate h (field r (ustr ''Date'')) = Some t \<and> startDateObj = Some t0 \<and> t0 \<le> t \<and>
             truthy (field r (ustr ''Date'')))"
  by (auto simp add: dateMatches_def dateGe_def Let_def split: option.splits)

text \<open>
  C5. In a class summary, a student's counters are sums over the rows inside the course
  window that are counted under the student's name: \<open>absences\<close> is the number of
  blocks whose status marks an absence, \<open>tardies\<close> the number of blocks that mark a
  tardy, and \<open>totalBlocks\<close> the number of blocks with a truthy status, over the four
  blocks of each row. For a status text, marking an absence is containing \<open>Absent\<close>,
  marking a tardy is containing \<open>Tardy\<close> and not \<open>Absent\<close>, and truthy is non-empty.
\<close>

theorem summarizeClass_block_counts:
  assumes "summarizeClass h e fetch className = Some (Success students)"
  shows "(\<exists>cid startDate allRecords.
            lookupCourse fetch className = Inr (Some cid, startDate) \<and>
            drain fetch (classRequest e) None [] = Some (Inr allRecords) \<and>
            (\<forall>s \<in> set students. \<exists>n. preferredName s = JStr n \<and>
               absences s = sum_list (map absentBlocks
                 (filter (\<lambda>r. inCourseWindow h cid (hostDate h startDate) r \<and> rowKey h r = Some n)
                    allRecords)) \<and>
               tardies s = sum_list (map tardyBlocks
                 (filter (\<lambda>r. inCourseWindow h cid (hostDate h startDate) r \<and> rowKey h r = Some n)
                    allRecords)) \<and>
               totalBlocks s = sum_list (map recordedBlocks
                 (filter (\<lambda>r. inCourseWindow h cid (hostDate h startDate) r \<and> rowKey h r = Some n)
                    allRecords)))) \<and>
         (\<forall>st. marksAbsent (JStr st) \<longleftrightarrow> (\<exists>p q. st = p @ ustr ''Absent'' @ q)) \<and>
         (\<forall>st. marksTardy (JStr st) \<longleftrightarrow>
                 (\<exists>p q. st = p @ ustr ''Tardy'' @ q) \<and> \<not> (\<exists>p q. st = p @ ustr ''Absent'' @ q)) \<and>
         (\<forall>st. truthy (JStr st) \<longleftrightarrow> st \<noteq> [])"
proof -
  from summarizeClass_Success [OF assms] obtain cid startDate allRecords m where
    course: "lookupCourse fetch className = Inr (Some cid, startDate)" and
    drained: "drain fetch (classRequest e) None [] = Some (Inr allRecords)" and
    agg: "aggregate h (filter (inCourseWindow h cid (hostDate h startDate)) allRecords) [] = Some m" and
    out: "students = sortStudents h (map (withPercent fetch className)
                                        (filter hasStringName (objectValues m)))"
    by blast
  let ?rows = "filter (inCourseWindow h cid (hostDate h startDate)) allRecords"
  have each: "\<exists>n. preferredName s = JStr n \<and>
               absences s = sum_list (map absentBlocks
                 (filter (\<lambda>r. inCourseWindow h cid (hostDate h startDate) r \<and> rowKey h r = Some n)
                    allRecords)) \<and>
               tardies s = sum_list (map tardyBlocks
                 (filter (\<lambda>r. inCourseWindow h cid (hostDate h startDate) r \<and> rowKey h r = Some n)
                    allRecords)) \<and>
               totalBlocks s = sum_list (map recordedBlocks
                 (filter (\<lambda>r. inCourseWindow h cid (hostDate h startDate) r \<and> rowKey h r = Some n)
                    allRecords))"
    if "s \<in> set students" for s
  proof -
    from that out obtain t where
      t: "t \<in> set (objectValues m)" and named: "hasStringName t" and
      s: "s = withPercent fetch className t"
      by (auto simp add: set_sortStudents)
    from named obtain n where n: "preferredName t = JStr n"
      by (auto simp add: hasStringName_def split: jsval.splits)
    from aggregate_student [OF agg t n]
    have "t = addTally \<lparr>preferredName = JStr n, absences = 0, tardies = 0, totalBlocks = 0\<rparr>
                      (filter (\<lambda>r. rowKey h r = Some n) ?rows)"
      by blast
    then have
      "absences t = sum_list (map absentBlocks (filter (\<lambda>r. rowKey h r = Some n) ?rows))"
      "tardies t = sum_list (map tardyBlocks (filter (\<lambda>r. rowKey h r = Some n) ?rows))"
      "totalBlocks t = sum_list (map recordedBlocks (filter (\<lambda>r. rowKey h r = Some n) ?rows))"
      by (simp_all add: addTally_def)
    moreover have "filter (\<lambda>r. rowKey h r = Some n) ?rows =
        filter (\<lambda>r. inCourseWindow h cid (hostDate h startDate) r \<and> rowKey h r = Some n) allRecords"
      by (simp add: conj_commute)
    ultimately show ?thesis
      using n s by (simp add: withPercent_fields)
  qed
  have nonempty: "\<forall>st. truthy (JStr st) \<longleftrightarrow> st \<noteq> []"
    by simp
  from course drained each marksAbsent_text marksTardy_text nonempty show ?thesis
    by blast
qed


lemma withPercent_cong:
  assumes "\<forall>n. fetch (percentRequest n) = fetch' (percentRequest n)"
  shows "withPercent fetch className t = withPercent fetch' className t"
  using assms by (simp add: withPercent_def split: jsval.splits)

text \<open>
  C4. Every student of a class summary has a fetched row with the student's name whose
  course links contain the course's record id and whose date is on or after the course's
  start date; a student without such a row is not in the summary. And the summary does
  not depend on the other rows: two stores that agree on the course, on the percentage
  lookups and on the rows inside the course window give the same summary.
\<close>

theorem summarizeClass_course_window:
  "(summarizeClass h e fetch className = Some (Success students) \<longrightarrow>
      (\<exists>cid startDate allRecords.
          lookupCourse fetch className = Inr (Some cid, startDate) \<and>
          drain fetch (classRequest e) None [] = Some (Inr allRecords) \<and>
          (\<forall>s \<in> set students. \<exists>r \<in> set allRecords.
              rowName r = preferredName s \<and>
              (\<exists>courses. field r (ustr ''Current Course (from Student)'') = JArr courses \<and>
                         JStr cid \<in> set courses) \<and>
              (\<exists>t t0. hostDate h (field r (ustr ''Date'')) = Some t \<and>
                      hostDate h startDate = Some t0 \<and> t0 \<le> t)))) \<and>
   (lookupCourse fetch className = Inr (Some cid, startDate) \<and>
    lookupCourse fetch' className = Inr (Some cid, startDate) \<and>
    drain fetch (classRequest e) None [] = Some (Inr rows) \<and>
    drain fetch' (classRequest e) None [] = Some (Inr rows') \<and>
    (\<forall>n. fetch (percentRequest n) = fetch' (percentRequest n)) \<and>
    filter (inCourseWindow h cid (hostDate h startDate)) rows =
      filter (inCourseWindow h cid (hostDate h startDate)) rows' \<longrightarrow>
    summarizeClass h e fetch className = summarizeClass h e fetch' className)"
proof (intro conjI impI)
  assume run: "summarizeClass h e fetch className = Some (Success students)"
  from summarizeClass_Success [OF run] obtain cid startDate allRecords m where
    course: "lookupCourse fetch className = Inr (Some cid, startDate)" and
    drained: "drain fetch (classRequest e) None [] = Some (Inr allRecords)" and
    agg: "aggregate h (filter (inCourseWindow h cid (hostDate h startDate)) allRecords) [] = Some m" and
    out: "students = sortStudents h (map (withPercent fetch className)
                                        (filter hasStringName (objectValues m)))"
    by blast
  have each: "\<exists>r \<in> set allRecords.
              rowName r = preferredName s \<and>
              (\<exists>courses. field r (ustr ''Current Course (from Student)'') = JArr courses \<and>
                         JStr cid \<in> set courses) \<and>
              (\<exists>t t0. hostDate h (field r (ustr ''Date'')) = Some t \<and>
                      hostDate h startDate = Some t0 \<and> t0 \<le> t)"
    if "s \<in> set students" for s
  proof -
    from that out obtain t where
      t: "t \<in> set (objectValues m)" and named: "hasStringName t" and
      s: "s = withPercent fetch className t"
      by (auto simp add: set_sortStudents)
    from named obtain n where n: "preferredName t = JStr n"
      by (auto simp add: hasStringName_def split: jsval.splits)
    from aggregate_student [OF agg t n] obtain r where
      r: "r \<in> set allRecords" "inCourseWindow h cid (hostDate h startDate) r" "rowName r = JStr n"
      by auto
    from r(2) have "courseMatches cid r" and "dateMatches h (hostDate h startDate) r"
      by (simp_all add: inCourseWindow_def)
    with r(1,3) n s show ?thesis
      by (auto simp add: courseMatches_iff dateMatches_iff withPercent_fields)
  qed
  from course drained each
  show "\<exists>cid startDate allRecords.
          lookupCourse fetch className = Inr (Some cid, startDate) \<and>
          drain fetch (classRequest e) None [] = Some (Inr allRecords) \<and>
          (\<forall>s \<in> set students. \<exists>r \<in> set allRecords.
              rowName r = preferredName s \<and>
              (\<exists>courses. field r (ustr ''Current Course (from Student)'') = JArr courses \<and>
                         JStr cid \<in> set courses) \<and>
              (\<exists>t t0. hostDate h (field r (ustr ''Date'')) = Some t \<and>
                      hostDate h startDate = Some t0 \<and> t0 \<le> t))"
    by blast
next
  assume same: "lookupCourse fetch className = Inr (Some cid, startDate) \<and>
    lookupCourse fetch' className = Inr (Some cid, startDate) \<and>
    drain fetch (classRequest e) None [] = Some (Inr rows) \<and>
    drain fetch' (classRequest e) None [] = Some (Inr rows') \<and>
    (\<forall>n. fetch (percentRequest n) = fetch' (percentRequest n)) \<and>
    filter (inCourseWindow h cid (hostDate h startDate)) rows =
      filter (inCourseWindow h cid (hostDate h startDate)) rows'"
  then have "withPercent fetch className = withPercent fetch' className"
    by (intro ext withPercent_cong) blast
  with same show "summarizeClass h e fetch className = summarizeClass h e fetch' className"
    by (simp add: summarizeClass_def split: option.splits)
qed

lemma lookupFails_null:
  assumes "lookupFails (fetch (percentRequest n))" and "preferredName t = JStr n"
  shows "withPercent fetch className t = spread t JNull"
  using assms
  by (auto simp add: withPercent_def lookupFails_def
      split: response.splits option.splits list.splits)

lemma courseRequest_not_percent: "courseRequest className \<noteq> percentRequest n"
  by (simp add: courseRequest_def percentRequest_def ustr_def)

lemma classRequest_not_percent: "classRequest e c \<noteq> percentRequest n"
  by (simp add: classRequest_def percentRequest_def withOffset_def ustr_def split: option.splits)

text \<open>
  C6. If the class summary succeeds on a store, it also succeeds on a store that differs
  only in the answer to one student's percentage lookup, where that lookup now fails
  (the request throws, a non-success status, a body that is not JSON, or no record).
  The result is the same list, in the same order, with \<open>percentMissed\<close> of that student
  set to \<open>null\<close>; every other student's summary is the same.
\<close>

theorem summarizeClass_join_degrades:
  assumes run: "summarizeClass h e fetch className = Some (Success students)"
    and fails: "lookupFails (fetch' (percentRequest n))"
    and same: "\<forall>q. q \<noteq> percentRequest n \<longrightarrow> fetch' q = fetch q"
  shows "summarizeClass h e fetch' className =
           Some (Success (map (\<lambda>s. if preferredName s = JStr n then s\<lparr>percentMissed := JNull\<rparr> else s)
                            students))"
proof -
  let ?g = "\<lambda>s::summary. if preferredName s = JStr n then s\<lparr>percentMissed := JNull\<rparr> else s"
  from summarizeClass_Success [OF run] obtain cid startDate allRecords m where
    course: "lookupCourse fetch className = Inr (Some cid, startDate)" and
    valid: "cid \<noteq> []" "truthy startDate" and
    drained: "drain fetch (classRequest e) None [] = Some (Inr allRecords)" and
    agg: "aggregate h (filter (inCourseWindow h cid (hostDate h startDate)) allRecords) [] = Some m" and
    out: "students = sortStudents h (map (withPercent fetch className)
                                        (filter hasStringName (objectValues m)))"
    by blast
  from same have "fetch' (courseRequest className) = fetch (courseRequest className)"
    by (simp add: courseRequest_not_percent)
  with course have course': "lookupCourse fetch' className = Inr (Some cid, startDate)"
    by (simp add: lookupCourse_def)
  from same have "\<And>c. fetch' (classRequest e c) = fetch (classRequest e c)"
    by (simp add: classRequest_not_percent)
  then have "drain fetch' (classRequest e) None [] = drain fetch (classRequest e) None []"
    by (rule drain_cong)
  with drained have drained': "drain fetch' (classRequest e) None [] = Some (Inr allRecords)"
    by simp
  have join: "withPercent fetch' className t = ?g (withPercent fetch className t)" for t
  proof (cases "preferredName t = JStr n")
    case True
    from withPercent_spread [of fetch className t] obtain p where
      "withPercent fetch className t = spread t p" ..
    with True lookupFails_null [of fetch' n t className, OF fails True] show ?thesis
      by (simp add: spread_def)
  next
    case False
    have "withPercent fetch' className t = withPercent fetch className t"
    proof (cases "preferredName t")
      case (JStr n')
      with False have "percentRequest n' \<noteq> percentRequest n"
        by (auto dest: percentRequest_inj)
      with same have "fetch' (percentRequest n') = fetch (percentRequest n')" by simp
      with JStr show ?thesis by (simp add: withPercent_def)
    qed (simp_all add: withPercent_def)
    with False show ?thesis by (simp add: withPercent_fields)
  qed
  have keep: "preferredName (?g s) = preferredName s" for s
    by simp
  have "sortStudents h (map (withPercent fetch' className) (filter hasStringName (objectValues m))) =
        sortStudents h (map ?g (map (withPercent fetch className) (filter hasStringName (objectValues m))))"
    by (simp add: join [abs_def] comp_def)
  also have "\<dots> = map ?g students"
    unfolding out by (rule sortStudents_map) (rule keep)
  finally show ?thesis
    using course' valid drained' agg by (simp add: summarizeClass_def)
qed

subsection \<open>The class summary on the sample store\<close>

lemma school_course:
  "lookupCourse (schoolStoreWith p1 p2) (ustr ''Frontend Jan 2026'') =
     Inr (Some (ustr ''recFE''), JStr (ustr ''2026-01-12''))"
  by (simp add: lookupCourse_def schoolStoreWith_def courseRequest_def ok_def field_def ustr_def)

lemma school_drained:
  "drain (schoolStoreWith p1 p2) (classRequest demoEnv) None [] = Some (Inr (p1 @ p2))"
  by (simp add: drain.simps schoolStoreWith_def classRequest_def withOffset_def demoEnv_def
      ok_def truthyOffset_def recordsOf_def ustr_def)

lemma school_start: "hostDate demoHost (JStr (ustr ''2026-01-12'')) = Some 1768176000000"
  by (simp add: demoHost_def isoDate_def ustr_def isDigit_def digitsValue_def daysFromCivil_def
      Let_def)

lemma school_window:
  "inCourseWindow demoHost (ustr ''recFE'') (Some 1768176000000) samJan15"
  "\<not> inCourseWindow demoHost (ustr ''recFE'') (Some 1768176000000) samJan10"
  "inCourseWindow demoHost (ustr ''recFE'') (Some 1768176000000) kimJan14"
  "\<not> inCourseWindow demoHost (ustr ''recFE'') (Some 1768176000000) leeJan20"
  by (simp_all add: inCourseWindow_def courseMatches_def dateMatches_def samJan15_def
      samJan10_def kimJan14_def leeJan20_def attendanceOf_def field_def orElse_def strictEq_def
      demoHost_def dateGe_def isoDate_def ustr_def isDigit_def digitsValue_def
      daysFromCivil_def Let_def)

lemma school_tally:
  "aggregate demoHost [samJan15, kimJan14] [] =
     Some [(ustr ''Sam'', samTally), (ustr ''Kim'', kimTally)]"
  by (simp add: aggregateRow_def rowName_def propertyKey_def String_def objectPrototypeKeys_def
      blockNames_def blockStep_def statusIncludes_def samJan15_def kimJan14_def attendanceOf_def
      field_def ustr_def Let_def samTally_def kimTally_def)

lemma school_values:
  "objectValues [(ustr ''Sam'', samTally), (ustr ''Kim'', kimTally)] = [samTally, kimTally]"
  by (simp add: objectValues_def isArrayIndex_def isDigit_def ustr_def)

lemma school_named: "hasStringName samTally" "hasStringName kimTally"
  by (simp_all add: hasStringName_def ustr_def samTally_def kimTally_def)

lemma school_percent_sam:
  "withPercent (schoolStoreWith p1 p2) (ustr ''Frontend Jan 2026'') samTally = samSummary"
  by (simp add: withPercent_def schoolStoreWith_def percentRequest_def ok_def pickPercent_def
      readOrZero_def orElse_def spread_def samSummary_def samTally_def ustr_def)

lemma school_percent_kim:
  "withPercent (schoolStoreWith p1 p2) (ustr ''Frontend Jan 2026'') kimTally = kimSummary"
  by (simp add: withPercent_def schoolStoreWith_def percentRequest_def ok_def
      fieldEquals_def spread_def kimSummary_def kimTally_def ustr_def)

lemma school_sorted: "sortStudents demoHost [samSummary, kimSummary] = [kimSummary, samSummary]"
  by (simp add: sortStudents_def compareNames_def samSummary_def kimSummary_def demoHost_def
      ustr_def)

lemma school_summary_with:
  assumes "filter (inCourseWindow demoHost (ustr ''recFE'') (Some 1768176000000)) (p1 @ p2) =
             [samJan15, kimJan14]"
  shows "summarizeClass demoHost demoEnv (schoolStoreWith p1 p2) (ustr ''Frontend Jan 2026'') =
     Some (Success [kimSummary, samSummary])"
proof -
  have nonempty: "ustr ''recFE'' \<noteq> []" and set: "truthy (JStr (ustr ''2026-01-12''))"
    by (simp_all add: ustr_def)
  show ?thesis
    unfolding summarizeClass_def
    by (simp del: aggregate.simps truthy.simps filter_append
        add: school_course school_drained school_start assms school_tally
          school_values school_named school_percent_sam school_percent_kim school_sorted
          nonempty set)
qed

lemma school_summary:
  "summarizeClass demoHost demoEnv schoolStore (ustr ''Frontend Jan 2026'') =
     Some (Success [kimSummary, samSummary])"
  unfolding schoolStore_def by (rule school_summary_with) (simp add: school_window)

lemma window_summary:
  "summarizeClass demoHost demoEnv windowOnlyStore (ustr ''Frontend Jan 2026'') =
     Some (Success [kimSummary, samSummary])"
  unfolding windowOnlyStore_def by (rule school_summary_with) (simp add: school_window)


lemma school_course_store:
  "lookupCourse schoolStore (ustr ''Frontend Jan 2026'') =
     Inr (Some (ustr ''recFE''), JStr (ustr ''2026-01-12''))"
  "lookupCourse windowOnlyStore (ustr ''Frontend Jan 2026'') =
     Inr (Some (ustr ''recFE''), JStr (ustr ''2026-01-12''))"
  unfolding schoolStore_def windowOnlyStore_def by (rule school_course)+

lemma school_drained_store:
  "drain schoolStore (classRequest demoEnv) None [] =
     Some (Inr [samJan15, samJan10, kimJan14, leeJan20])"
  "drain windowOnlyStore (classRequest demoEnv) None [] = Some (Inr [samJan15, kimJan14])"
  unfolding schoolStore_def windowOnlyStore_def by (simp_all add: school_drained)

lemma school_percent_same:
  "\<forall>n. schoolStore (percentRequest n) = windowOnlyStore (percentRequest n)"
  by (simp add: schoolStore_def windowOnlyStore_def schoolStoreWith_def percentRequest_def ustr_def)

lemma school_window_same:
  "filter (inCourseWindow demoHost (ustr ''recFE'') (hostDate demoHost (JStr (ustr ''2026-01-12''))))
     [samJan15, samJan10, kimJan14, leeJan20] =
   filter (inCourseWindow demoHost (ustr ''recFE'') (hostDate demoHost (JStr (ustr ''2026-01-12''))))
     [samJan15, kimJan14]"
  by (simp add: school_start school_window)

theorem summarizeClass_course_window_witness:
  "(\<exists>r. r \<in> set [samJan15, samJan10, kimJan14, leeJan20] \<and>
        rowName r = JStr (ustr ''Sam'') \<and>
        (\<exists>courses. field r (ustr ''Current Course (from Student)'') = JArr courses \<and>
                   JStr (ustr ''recFE'') \<in> set courses) \<and>
        (\<exists>t t0. hostDate demoHost (field r (ustr ''Date'')) = Some t \<and>
                hostDate demoHost (JStr (ustr ''2026-01-12'')) = Some t0 \<and> t0 \<le> t)) \<and>
   summarizeClass demoHost demoEnv schoolStore (ustr ''Frontend Jan 2026'') =
     summarizeClass demoHost demoEnv windowOnlyStore (ustr ''Frontend Jan 2026'')"
proof
  note window = summarizeClass_course_window
    [of demoHost demoEnv schoolStore "ustr ''Frontend Jan 2026''" "[kimSummary, samSummary]"
        "ustr ''recFE''" "JStr (ustr ''2026-01-12'')" windowOnlyStore
        "[samJan15, samJan10, kimJan14, leeJan20]" "[samJan15, kimJan14]"]
  from window school_summary obtain cid startDate allRecords where
    course: "lookupCourse schoolStore (ustr ''Frontend Jan 2026'') = Inr (Some cid, startDate)" and
    drained: "drain schoolStore (classRequest demoEnv) None [] = Some (Inr allRecords)" and
    each: "\<forall>s \<in> set [kimSummary, samSummary]. \<exists>r \<in> set allRecords.
              rowName r = preferredName s \<and>
              (\<exists>courses. field r (ustr ''Current Course (from Student)'') = JArr courses \<and>
                         JStr cid \<in> set courses) \<and>
              (\<exists>t t0. hostDate demoHost (field r (ustr ''Date'')) = Some t \<and>
                      hostDate demoHost startDate = Some t0 \<and> t0 \<le> t)"
    by blast
  from course have cid: "cid = ustr ''recFE''" and start: "startDate = JStr (ustr ''2026-01-12'')"
    by (simp_all add: school_course_store)
  from drained have rows: "allRecords = [samJan15, samJan10, kimJan14, leeJan20]"
    by (simp add: school_drained_store)
  have "preferredName samSummary = JStr (ustr ''Sam'')"
    by (simp add: samSummary_def)
  with each show "\<exists>r. r \<in> set [samJan15, samJan10, kimJan14, leeJan20] \<and>
        rowName r = JStr (ustr ''Sam'') \<and>
        (\<exists>courses. field r (ustr ''Current Course (from Student)'') = JArr courses \<and>
                   JStr (ustr ''recFE'') \<in> set courses) \<and>
        (\<exists>t t0. hostDate demoHost (field r (ustr ''Date'')) = Some t \<and>
                hostDate demoHost (JStr (ustr ''2026-01-12'')) = Some t0 \<and> t0 \<le> t)"
    unfolding cid start rows by (auto simp only: list.set Bex_def ball_simps insert_iff)
next
  note window = summarizeClass_course_window
    [of demoHost demoEnv schoolStore "ustr ''Frontend Jan 2026''" "[kimSummary, samSummary]"
        "ustr ''recFE''" "JStr (ustr ''2026-01-12'')" windowOnlyStore
        "[samJan15, samJan10, kimJan14, leeJan20]" "[samJan15, kimJan14]"]
  show "summarizeClass demoHost demoEnv schoolStore (ustr ''Frontend Jan 2026'') =
     summarizeClass demoHost demoEnv windowOnlyStore (ustr ''Frontend Jan 2026'')"
    by (rule mp [OF conjunct2 [OF window]])
       (intro conjI school_course_store school_drained_store school_percent_same
          school_window_same)
qed


theorem summarizeClass_block_counts_witness:
  "summarizeClass demoHost demoEnv schoolStore (ustr ''Frontend Jan 2026'') =
     Some (Success [kimSummary, samSummary]) \<and>
   absences samSummary = sum_list (map absentBlocks
     (filter (\<lambda>r. inCourseWindow demoHost (ustr ''recFE'')
                    (hostDate demoHost (JStr (ustr ''2026-01-12''))) r \<and>
                  rowKey demoHost r = Some (ustr ''Sam''))
        [samJan15, samJan10, kimJan14, leeJan20])) \<and>
   tardies samSummary = sum_list (map tardyBlocks
     (filter (\<lambda>r. inCourseWindow demoHost (ustr ''recFE'')
                    (hostDate demoHost (JStr (ustr ''2026-01-12''))) r \<and>
                  rowKey demoHost r = Some (ustr ''Sam''))
        [samJan15, samJan10, kimJan14, leeJan20])) \<and>
   totalBlocks samSummary = sum_list (map recordedBlocks
     (filter (\<lambda>r. inCourseWindow demoHost (ustr ''recFE'')
                    (hostDate demoHost (JStr (ustr ''2026-01-12''))) r \<and>
                  rowKey demoHost r = Some (ustr ''Sam''))
        [samJan15, samJan10, kimJan14, leeJan20]))"
proof -
  let ?rows = "\<lambda>cid startDate allRecords n.
     filter (\<lambda>r. inCourseWindow demoHost cid (hostDate demoHost startDate) r \<and>
                  rowKey demoHost r = Some n) allRecords"
  from summarizeClass_block_counts [OF school_summary] obtain cid startDate allRecords where
    course: "lookupCourse schoolStore (ustr ''Frontend Jan 2026'') = Inr (Some cid, startDate)" and
    drained: "drain schoolStore (classRequest demoEnv) None [] = Some (Inr allRecords)" and
    each: "\<forall>s \<in> set [kimSummary, samSummary]. \<exists>n. preferredName s = JStr n \<and>
               absences s = sum_list (map absentBlocks (?rows cid startDate allRecords n)) \<and>
               tardies s = sum_list (map tardyBlocks (?rows cid startDate allRecords n)) \<and>
               totalBlocks s = sum_list (map recordedBlocks (?rows cid startDate allRecords n))"
    by blast
  from course have cid: "cid = ustr ''recFE''" and start: "startDate = JStr (ustr ''2026-01-12'')"
    by (simp_all add: school_course_store)
  from drained have rows: "allRecords = [samJan15, samJan10, kimJan14, leeJan20]"
    by (simp add: school_drained_store)
  from each obtain n where
    n: "preferredName samSummary = JStr n" and
    counts: "absences samSummary = sum_list (map absentBlocks (?rows cid startDate allRecords n))"
      "tardies samSummary = sum_list (map tardyBlocks (?rows cid startDate allRecords n))"
      "totalBlocks samSummary = sum_list (map recordedBlocks (?rows cid startDate allRecords n))"
    by (auto simp only: list.set ball_simps insert_iff)
  from n have "n = ustr ''Sam''"
    by (simp add: samSummary_def)
  with counts cid start rows school_summary show ?thesis
    by (simp only: simp_thms)
qed

theorem summarizeClass_join_degrades_witness:
  "summarizeClass demoHost demoEnv schoolStore (ustr ''Frontend Jan 2026'') =
     Some (Success [kimSummary, samSummary]) \<and>
   lookupFails (samLookupDown (percentRequest (ustr ''Sam''))) \<and>
   summarizeClass demoHost demoEnv samLookupDown (ustr ''Frontend Jan 2026'') =
     Some (Success [kimSummary, samSummary\<lparr>percentMissed := JNull\<rparr>])"
proof -
  have fails: "lookupFails (samLookupDown (percentRequest (ustr ''Sam'')))"
    by (simp add: samLookupDown_def lookupFails_def ok_def)
  have same: "\<forall>q. q \<noteq> percentRequest (ustr ''Sam'') \<longrightarrow> samLookupDown q = schoolStore q"
    by (simp add: samLookupDown_def)
  have others: "map (\<lambda>s. if preferredName s = JStr (ustr ''Sam'') then s\<lparr>percentMissed := JNull\<rparr> else s)
           [kimSummary, samSummary] = [kimSummary, samSummary\<lparr>percentMissed := JNull\<rparr>]"
    by (simp add: kimSummary_def samSummary_def ustr_def)
  from summarizeClass_join_degrades [OF school_summary fails same]
  have "summarizeClass demoHost demoEnv samLookupDown (ustr ''Frontend Jan 2026'') =
     Some (Success [kimSummary, samSummary\<lparr>percentMissed := JNull\<rparr>])"
    unfolding others .
  with school_summary fails show ?thesis
    by (intro conjI)
qed

end
